theory Spec2Isabelle
  imports Main "HOL-Library.Word"
begin

unbundle bit_operations_syntax

section \<open>Bytes, little-endian fields and Go strings\<close>

text \<open>
  A Go \<^verbatim>\<open>[]byte\<close> is a list of 8-bit words. Go's \<^verbatim>\<open>int\<close> is taken at its 64-bit
  width; lengths of slices are natural numbers, and every cast to a narrower unsigned type
  (\<^verbatim>\<open>uint16(x)\<close>, \<^verbatim>\<open>uint32(x)\<close>, \<^verbatim>\<open>byte(x)\<close>) is \<open>of_nat\<close>, \<open>of_int\<close> or \<open>ucast\<close> into
  the word type of that width, which reduces modulo the width as Go does.
\<close>

type_synonym byte = "8 word"
type_synonym rune = "32 word"

text \<open>A Go \<^verbatim>\<open>string\<close> is its sequence of bytes (UTF-8 by convention, not by type).\<close>

type_synonym gostring = "byte list"

text \<open>\<^verbatim>\<open>binary.LittleEndian.PutUint16/32/64\<close>: the bytes stored, lowest first.\<close>

definition PutUint16 :: "16 word \<Rightarrow> byte list" where
  "PutUint16 v = [ucast v, ucast (drop_bit 8 v)]"

definition PutUint32 :: "32 word \<Rightarrow> byte list" where
  "PutUint32 v = [ucast v, ucast (drop_bit 8 v), ucast (drop_bit 16 v), ucast (drop_bit 24 v)]"

definition PutUint64 :: "64 word \<Rightarrow> byte list" where
  "PutUint64 v = [ucast v, ucast (drop_bit 8 v), ucast (drop_bit 16 v), ucast (drop_bit 24 v),
     ucast (drop_bit 32 v), ucast (drop_bit 40 v), ucast (drop_bit 48 v), ucast (drop_bit 56 v)]"

text \<open>The bytes of a string constant of the source that holds ASCII characters only.\<close>

definition ascii :: "string \<Rightarrow> gostring" where
  "ascii s = map (\<lambda>c. of_nat (of_char c)) s"

subsection \<open>Decoding a string into runes\<close>

text \<open>
  The conversion \<^verbatim>\<open>[]rune(s)\<close> and the loop \<^verbatim>\<open>for _, r := range s\<close> decode the
  bytes of \<open>s\<close> as UTF-8 the way Go's \<^verbatim>\<open>utf8.DecodeRune\<close> does: a byte that starts no
  valid encoding yields the rune U+FFFD and is stepped over alone. \<open>runeSize\<close>,
  \<open>acceptLo\<close> and \<open>acceptHi\<close> are the tables \<^verbatim>\<open>first\<close> and \<^verbatim>\<open>acceptRanges\<close> of
  package \<^verbatim>\<open>unicode/utf8\<close> (size 0 stands for an invalid first byte).
\<close>

definition RuneError :: rune where
  "RuneError = 0xFFFD"

definition runeSize :: "byte \<Rightarrow> nat" where
  "runeSize s0 =
     (if s0 < 0x80 then 1
      else if s0 < 0xC2 then 0
      else if s0 < 0xE0 then 2
      else if s0 < 0xF0 then 3
      else if s0 < 0xF5 then 4
      else 0)"

definition acceptLo :: "byte \<Rightarrow> byte" where
  "acceptLo s0 = (if s0 = 0xE0 then 0xA0 else if s0 = 0xF0 then 0x90 else 0x80)"

definition acceptHi :: "byte \<Rightarrow> byte" where
  "acceptHi s0 = (if s0 = 0xED then 0x9F else if s0 = 0xF4 then 0x8F else 0xBF)"

fun DecodeRune :: "byte list \<Rightarrow> rune \<times> nat" where
  "DecodeRune [] = (RuneError, 0)"
| "DecodeRune (s0 # rest) =
     (if s0 < 0x80 then (ucast s0, 1)
      else if runeSize s0 = 0 then (RuneError, 1)
      else if length (s0 # rest) < runeSize s0 then (RuneError, 1)
      else if rest ! 0 < acceptLo s0 \<or> acceptHi s0 < rest ! 0 then (RuneError, 1)
      else if runeSize s0 \<le> 2 then
        (push_bit 6 (ucast (s0 AND 0x1F)) OR ucast (rest ! 0 AND 0x3F), 2)
      else if rest ! 1 < 0x80 \<or> 0xBF < rest ! 1 then (RuneError, 1)
      else if runeSize s0 \<le> 3 then
        (push_bit 12 (ucast (s0 AND 0x0F)) OR push_bit 6 (ucast (rest ! 0 AND 0x3F))
           OR ucast (rest ! 1 AND 0x3F), 3)
      else if rest ! 2 < 0x80 \<or> 0xBF < rest ! 2 then (RuneError, 1)
      else
        (push_bit 18 (ucast (s0 AND 0x07)) OR push_bit 12 (ucast (rest ! 0 AND 0x3F))
           OR push_bit 6 (ucast (rest ! 1 AND 0x3F)) OR ucast (rest ! 2 AND 0x3F), 4))"

text \<open>
  \<^verbatim>\<open>[]rune(s)\<close>: decode a rune, step over the bytes it consumed (at least one), repeat.
  The first argument of \<open>runesFrom\<close> counts the bytes still to be stepped over.
\<close>

fun runesFrom :: "nat \<Rightarrow> gostring \<Rightarrow> rune list" where
  "runesFrom k [] = []"
| "runesFrom 0 (s0 # rest) =
     fst (DecodeRune (s0 # rest)) # runesFrom (snd (DecodeRune (s0 # rest)) - 1) rest"
| "runesFrom (Suc k) (s0 # rest) = runesFrom k rest"

definition runes :: "gostring \<Rightarrow> rune list" where
  "runes s = runesFrom 0 s"

subsection \<open>cfb.go: stringToUTF16LE\<close>

text \<open>
  \<^verbatim>\<open>buf := make([]byte, len(runes)*2)\<close>, then for each rune
  \<^verbatim>\<open>PutUint16(buf[i*2:], uint16(r))\<close>: two bytes per rune, the rune cut to 16 bits.
\<close>

definition stringToUTF16LE :: "gostring \<Rightarrow> byte list" where
  "stringToUTF16LE s = concat (map (\<lambda>r. PutUint16 (ucast r)) (runes s))"

subsection \<open>The UTF-16 encoder of golang.org/x/text\<close>

text \<open>
  \<^verbatim>\<open>encodeString\<close> and \<^verbatim>\<open>encodeStringForSST\<close> do not call \<open>stringToUTF16LE\<close>: they
  call \<^verbatim>\<open>unicode.UTF16(unicode.LittleEndian, unicode.IgnoreBOM).NewEncoder().String(s)\<close>
  of the dependency golang.org/x/text, which is no part of the repository. The definitions
  below follow that library's transformer: no byte-order mark under \<^verbatim>\<open>IgnoreBOM\<close>; each
  rune decoded with \<^verbatim>\<open>utf8.DecodeRune\<close>; a rune up to 0xFFFF written as one 16-bit unit,
  a larger one as the surrogate pair of \<^verbatim>\<open>utf16.EncodeRune\<close>; invalid input becomes
  U+FFFD and is no error. The call has the type \<^verbatim>\<open>(string, error)\<close>, kept here as a sum.
\<close>

datatype error = EncoderError

definition EncodeRune :: "rune \<Rightarrow> 16 word \<times> 16 word" where
  "EncodeRune r =
     (ucast (0xD800 + (drop_bit 10 (r - 0x10000) AND 0x3FF)),
      ucast (0xDC00 + ((r - 0x10000) AND 0x3FF)))"

definition utf16Unit :: "rune \<Rightarrow> byte list" where
  "utf16Unit r =
     (if r \<le> 0xFFFF then PutUint16 (ucast r)
      else PutUint16 (fst (EncodeRune r)) @ PutUint16 (snd (EncodeRune r)))"

definition EncoderString :: "gostring \<Rightarrow> error + byte list" where
  "EncoderString s = Inr (concat (map utf16Unit (runes s)))"

section \<open>The record emitter and the shared string table\<close>

subsection \<open>writeRecord\<close>

text \<open>
  The sink of every writer below is an in-memory \<^verbatim>\<open>bytes.Buffer\<close>, whose \<^verbatim>\<open>Write\<close> never
  returns an error; a writer is modelled by the bytes it appends to the sink.
  \<open>writeRecord\<close> writes the 4-byte header, with \<^verbatim>\<open>uint16(len(data))\<close> as length, and then
  the payload when it is not empty.
\<close>

definition writeRecord :: "16 word \<Rightarrow> byte list \<Rightarrow> byte list" where
  "writeRecord recType payload =
     (PutUint16 recType @ PutUint16 (of_nat (length payload)))
     @ (if length payload > 0 then payload else [])"

subsection \<open>sharedStringTable\<close>

text \<open>
  The counters and the indices in the map are Go \<^verbatim>\<open>int\<close>s. \<open>totalCount\<close> grows by one
  per call of \<open>addString\<close> and \<open>uniqueCount\<close> by one per string appended, so that a
  wrap-around would take \<open>2^63\<close> calls; they are unbounded integers here. A Go map read of
  a missing key gives the zero value, which \<open>getIndex\<close> returns.
\<close>

record sharedStringTable =
  strings :: "gostring list"
  stringMap :: "gostring \<rightharpoonup> int"
  uniqueCount :: int
  totalCount :: int

definition newSST :: sharedStringTable where
  "newSST = \<lparr>strings = [], stringMap = Map.empty, uniqueCount = 0, totalCount = 0\<rparr>"

definition addString :: "sharedStringTable \<Rightarrow> gostring \<Rightarrow> sharedStringTable" where
  "addString sst s =
     (let sst1 = sst\<lparr>totalCount := totalCount sst + 1\<rparr>
      in case stringMap sst1 s of
           None \<Rightarrow> sst1\<lparr>stringMap := (stringMap sst1)(s \<mapsto> uniqueCount sst1),
                        strings := strings sst1 @ [s],
                        uniqueCount := uniqueCount sst1 + 1\<rparr>
         | Some _ \<Rightarrow> sst1)"

definition getIndex :: "sharedStringTable \<Rightarrow> gostring \<Rightarrow> int" where
  "getIndex sst s = (case stringMap sst s of None \<Rightarrow> 0 | Some i \<Rightarrow> i)"

text \<open>A sequence of \<open>addString\<close> calls, in order, on a table.\<close>

definition addStrings :: "sharedStringTable \<Rightarrow> gostring list \<Rightarrow> sharedStringTable" where
  "addStrings sst ss = foldl addString sst ss"

subsection \<open>encodeString and encodeStringForSST\<close>

definition encodeString :: "gostring \<Rightarrow> error + byte list" where
  "encodeString s =
     (case EncoderString s of
        Inl err \<Rightarrow> Inl err
      | Inr utf16 \<Rightarrow> Inr ([of_nat (length (runes s)), 0x01, 0x00] @ utf16))"

definition encodeStringForSST :: "gostring \<Rightarrow> error + byte list" where
  "encodeStringForSST s =
     (case EncoderString s of
        Inl err \<Rightarrow> Inl err
      | Inr utf16 \<Rightarrow> Inr (PutUint16 (of_nat (length (runes s))) @ [0x01] @ utf16))"

section \<open>The BIFF8 stream builder\<close>

subsection \<open>Record types and the writer\<close>

definition recTypeBOF :: "16 word" where "recTypeBOF = 0x0809"
definition recTypeEOF :: "16 word" where "recTypeEOF = 0x000A"
definition recTypeDIMENSIONS :: "16 word" where "recTypeDIMENSIONS = 0x0200"
definition recTypeROW :: "16 word" where "recTypeROW = 0x0208"
definition recTypeLABEL :: "16 word" where "recTypeLABEL = 0x0204"
definition recTypeNUMBER :: "16 word" where "recTypeNUMBER = 0x0203"
definition recTypeBOOLERR :: "16 word" where "recTypeBOOLERR = 0x0205"
definition recTypeSST :: "16 word" where "recTypeSST = 0x00FC"
definition recTypeLABELSST :: "16 word" where "recTypeLABELSST = 0x00FD"
definition recTypeCODEPAGE :: "16 word" where "recTypeCODEPAGE = 0x0042"
definition recTypeFONT :: "16 word" where "recTypeFONT = 0x0031"
definition recTypeFORMAT :: "16 word" where "recTypeFORMAT = 0x041E"
definition recTypeXF :: "16 word" where "recTypeXF = 0x00E0"
definition recTypeSTYLE :: "16 word" where "recTypeSTYLE = 0x0293"
definition recTypeBOUNDSHEET :: "16 word" where "recTypeBOUNDSHEET = 0x0085"
definition recTypeWINDOW1 :: "16 word" where "recTypeWINDOW1 = 0x003D"
definition recTypeWINDOW2 :: "16 word" where "recTypeWINDOW2 = 0x023E"
definition recTypeDEFAULTROWHEIGHT :: "16 word" where "recTypeDEFAULTROWHEIGHT = 0x0225"
definition recTypeWSBOOL :: "16 word" where "recTypeWSBOOL = 0x0081"
definition recTypeBOOKBOOL :: "16 word" where "recTypeBOOKBOOL = 0x00DA"
definition recTypeINTERFACEHDR :: "16 word" where "recTypeINTERFACEHDR = 0x00E1"
definition recTypeMMS :: "16 word" where "recTypeMMS = 0x00C1"
definition recTypeINTERFACEEND :: "16 word" where "recTypeINTERFACEEND = 0x00E2"
definition recTypeWRITEACCESS :: "16 word" where "recTypeWRITEACCESS = 0x005C"
definition recTypeDATEMODE :: "16 word" where "recTypeDATEMODE = 0x0022"
definition recTypePRECISION :: "16 word" where "recTypePRECISION = 0x000E"
definition recTypeREFRESHALL :: "16 word" where "recTypeREFRESHALL = 0x01B7"
definition recTypeCALCMODE :: "16 word" where "recTypeCALCMODE = 0x000D"
definition recTypeCALCCOUNT :: "16 word" where "recTypeCALCCOUNT = 0x000C"
definition recTypeREFMODE :: "16 word" where "recTypeREFMODE = 0x000F"
definition recTypeITERATION :: "16 word" where "recTypeITERATION = 0x0011"
definition recTypeDELTA :: "16 word" where "recTypeDELTA = 0x0010"
definition recTypeSAVERECALC :: "16 word" where "recTypeSAVERECALC = 0x005F"
definition recTypePRINTHEADERS :: "16 word" where "recTypePRINTHEADERS = 0x002A"
definition recTypePRINTGRIDLINES :: "16 word" where "recTypePRINTGRIDLINES = 0x002B"
definition recTypePROTECT :: "16 word" where "recTypePROTECT = 0x0012"
definition recTypePASSWORD :: "16 word" where "recTypePASSWORD = 0x0013"
definition recTypeBACKUP :: "16 word" where "recTypeBACKUP = 0x0040"
definition recTypeHIDEOBJ :: "16 word" where "recTypeHIDEOBJ = 0x008D"
definition recTypeWINDOWPROTECT :: "16 word" where "recTypeWINDOWPROTECT = 0x0019"
definition recTypeDSF :: "16 word" where "recTypeDSF = 0x0161"
definition recTypePROT4REV :: "16 word" where "recTypePROT4REV = 0x01AF"
definition recTypePASSWORDREV4 :: "16 word" where "recTypePASSWORDREV4 = 0x01BC"
definition recTypeFNGROUPCOUNT :: "16 word" where "recTypeFNGROUPCOUNT = 0x013D"
definition recTypeUSESELFS :: "16 word" where "recTypeUSESELFS = 0x0160"
definition recTypeUNKNOWN9C :: "16 word" where "recTypeUNKNOWN9C = 0x009C"
definition recTypeLEFTMARGIN :: "16 word" where "recTypeLEFTMARGIN = 0x0026"
definition recTypeRIGHTMARGIN :: "16 word" where "recTypeRIGHTMARGIN = 0x0027"
definition recTypeTOPMARGIN :: "16 word" where "recTypeTOPMARGIN = 0x0028"
definition recTypeBOTTOMMARGIN :: "16 word" where "recTypeBOTTOMMARGIN = 0x0029"
definition recTypeHCENTER :: "16 word" where "recTypeHCENTER = 0x0083"
definition recTypeVCENTER :: "16 word" where "recTypeVCENTER = 0x0084"
definition recTypeSETUP :: "16 word" where "recTypeSETUP = 0x00A1"
definition recTypeGRIDSET :: "16 word" where "recTypeGRIDSET = 0x0082"
definition recTypeGUTS :: "16 word" where "recTypeGUTS = 0x0080"
definition recTypeOBJPROTECT :: "16 word" where "recTypeOBJPROTECT = 0x0063"
definition recTypeSCENPROTECT :: "16 word" where "recTypeSCENPROTECT = 0x00DD"
definition recTypeHBREAK :: "16 word" where "recTypeHBREAK = 0x001B"
definition recTypeVBREAK :: "16 word" where "recTypeVBREAK = 0x001A"
definition recTypeHEADER :: "16 word" where "recTypeHEADER = 0x0014"
definition recTypeFOOTER :: "16 word" where "recTypeFOOTER = 0x0015"

definition biffVersion :: "16 word" where "biffVersion = 0x0600"
definition bofWorkbook :: "16 word" where "bofWorkbook = 0x0005"
definition bofWorksheet :: "16 word" where "bofWorksheet = 0x0010"

text \<open>
  A cell is an \<^verbatim>\<open>interface{}\<close>; \<open>writeCell\<close> and the pre-walk of \<open>writeBIFF8\<close> switch on
  its dynamic type. \<open>CellNumber\<close> stands for the twelve integer and floating kinds and
  carries \<^verbatim>\<open>math.Float64bits(float64(v))\<close>; \<open>CellOther\<close> stands for every other dynamic
  type and carries the text \<^verbatim>\<open>fmt.Sprintf("%v", v)\<close> of the value.
\<close>

datatype cell =
    CellString gostring
  | CellNumber "64 word"
  | CellBool bool
  | CellOther gostring

record Writer =
  data :: "cell list list"
  sheetName :: gostring

definition New :: Writer where
  "New = \<lparr>data = [], sheetName = ascii ''Sheet1''\<rparr>"

definition SetSheetName :: "Writer \<Rightarrow> gostring \<Rightarrow> Writer" where
  "SetSheetName w name = w\<lparr>sheetName := name\<rparr>"

definition Write :: "Writer \<Rightarrow> cell list list \<Rightarrow> Writer" where
  "Write w d = w\<lparr>data := d\<rparr>"

subsection \<open>Fixed records\<close>

text \<open>
  Each writer fills a zeroed \<^verbatim>\<open>make([]byte, n)\<close> field by field and hands it to
  \<open>writeRecord\<close>; the payload is written here as the fields in the order of their offsets.
  Writers that do not read the \<^verbatim>\<open>Writer\<close> take no argument for it.
\<close>

definition writeBOF :: "16 word \<Rightarrow> byte list" where
  "writeBOF subType = writeRecord recTypeBOF
     (PutUint16 biffVersion @ PutUint16 subType @ PutUint16 0x0DBB @ PutUint16 0x07CC
      @ PutUint32 0x00000000 @ PutUint32 0x00000006)"

definition writeEOF :: "byte list" where
  "writeEOF = writeRecord recTypeEOF []"

definition writeCodePage :: "byte list" where
  "writeCodePage = writeRecord recTypeCODEPAGE (PutUint16 0x04B0)"

definition writeDefaultFont :: "byte list" where
  "writeDefaultFont =
     (let fontName = ascii ''Arial''
      in writeRecord recTypeFONT
           (PutUint16 200 @ PutUint16 0 @ PutUint16 0x7FFF @ PutUint16 400 @ PutUint16 0
            @ [0, 0, 1, 0] @ [of_nat (length fontName), 0x00] @ fontName))"

definition writeFormat :: "byte list" where
  "writeFormat =
     (let formatString = ascii ''General''
      in writeRecord recTypeFORMAT
           (PutUint16 0x00A4 @ PutUint16 (of_nat (length formatString)) @ [0x00]
            @ formatString))"

definition writeXF :: "bool \<Rightarrow> 16 word \<Rightarrow> byte list" where
  "writeXF isStyleXF fontIndex =
     (if isStyleXF then
        writeRecord recTypeXF
          (PutUint16 fontIndex @ PutUint16 0x00A4 @ PutUint16 0xFFF5 @ PutUint16 0x0020
           @ PutUint32 0x0000F400 @ PutUint32 0x00000000 @ PutUint32 0x20C00000)
      else
        writeRecord recTypeXF
          (PutUint16 fontIndex @ PutUint16 0x00A4 @ PutUint16 0x0001 @ PutUint16 0x0020
           @ PutUint32 0x0000F800 @ PutUint32 0x00000000 @ PutUint32 0x20C00000))"

definition writeDefaultStyle :: "byte list" where
  "writeDefaultStyle = writeRecord recTypeSTYLE (PutUint16 0x8000 @ [0, 0xFF])"

definition writeWindow1 :: "byte list" where
  "writeWindow1 = writeRecord recTypeWINDOW1
     (PutUint16 0 @ PutUint16 0 @ PutUint16 0x4000 @ PutUint16 0x3000 @ PutUint16 0x0038
      @ PutUint16 0 @ PutUint16 0 @ PutUint16 1 @ PutUint16 600)"

definition writeWindow2 :: "byte list" where
  "writeWindow2 = writeRecord recTypeWINDOW2
     (PutUint16 0x06B6 @ PutUint16 0 @ PutUint16 0 @ PutUint16 0x0040 @ PutUint16 0
      @ PutUint16 0 @ PutUint32 0 @ PutUint16 0)"

definition writeDefaultRowHeight :: "byte list" where
  "writeDefaultRowHeight =
     writeRecord recTypeDEFAULTROWHEIGHT (PutUint16 0x0000 @ PutUint16 0x00FF)"

definition writeWSBool :: "byte list" where
  "writeWSBool = writeRecord recTypeWSBOOL (PutUint16 0x04C1)"

definition writeBookBool :: "byte list" where
  "writeBookBool = writeRecord recTypeBOOKBOOL (PutUint16 0)"

definition writeInterfaceHdr :: "byte list" where
  "writeInterfaceHdr = writeRecord recTypeINTERFACEHDR (PutUint16 0x04B0)"

definition writeMMS :: "byte list" where
  "writeMMS = writeRecord recTypeMMS (PutUint16 0)"

definition writeInterfaceEnd :: "byte list" where
  "writeInterfaceEnd = writeRecord recTypeINTERFACEEND []"

definition writeWriteAccess :: "byte list" where
  "writeWriteAccess =
     (let username = ascii ''Go XLS Writer''
      in writeRecord recTypeWRITEACCESS (username @ replicate (112 - length username) 0x20))"

definition writeDateMode :: "byte list" where
  "writeDateMode = writeRecord recTypeDATEMODE (PutUint16 0)"

definition writePrecision :: "byte list" where
  "writePrecision = writeRecord recTypePRECISION (PutUint16 1)"

definition writeRefreshAll :: "byte list" where
  "writeRefreshAll = writeRecord recTypeREFRESHALL (PutUint16 0)"

definition writeCalcMode :: "byte list" where
  "writeCalcMode = writeRecord recTypeCALCMODE (PutUint16 1)"

definition writeCalcCount :: "byte list" where
  "writeCalcCount = writeRecord recTypeCALCCOUNT (PutUint16 100)"

definition writeRefMode :: "byte list" where
  "writeRefMode = writeRecord recTypeREFMODE (PutUint16 1)"

definition writeIteration :: "byte list" where
  "writeIteration = writeRecord recTypeITERATION (PutUint16 0)"

text \<open>
  \<^verbatim>\<open>math.Float64bits\<close> of the three constants of the source, as IEEE-754 binary64:
  0.001 is 0x3F50624DD2F1A9FC, 0.75 is 0x3FE8000000000000, 1.0 is 0x3FF0000000000000.
\<close>

definition writeDelta :: "byte list" where
  "writeDelta = writeRecord recTypeDELTA (PutUint64 0x3F50624DD2F1A9FC)"

definition writeSaveRecalc :: "byte list" where
  "writeSaveRecalc = writeRecord recTypeSAVERECALC (PutUint16 1)"

definition writePrintHeaders :: "byte list" where
  "writePrintHeaders = writeRecord recTypePRINTHEADERS (PutUint16 0)"

definition writePrintGridlines :: "byte list" where
  "writePrintGridlines = writeRecord recTypePRINTGRIDLINES (PutUint16 0)"

definition writeProtect :: "byte list" where
  "writeProtect = writeRecord recTypePROTECT (PutUint16 0)"

definition writePassword :: "byte list" where
  "writePassword = writeRecord recTypePASSWORD (PutUint16 0)"

definition writeBackup :: "byte list" where
  "writeBackup = writeRecord recTypeBACKUP (PutUint16 0)"

definition writeHideObj :: "byte list" where
  "writeHideObj = writeRecord recTypeHIDEOBJ (PutUint16 0)"

definition writeWindowProtect :: "byte list" where
  "writeWindowProtect = writeRecord recTypeWINDOWPROTECT (PutUint16 0)"

definition writeDSF :: "byte list" where
  "writeDSF = writeRecord recTypeDSF (PutUint16 0)"

definition writeFnGroupCount :: "byte list" where
  "writeFnGroupCount = writeRecord recTypeFNGROUPCOUNT (PutUint16 0x0001)"

definition writeUnknown9C :: "byte list" where
  "writeUnknown9C = writeRecord recTypeUNKNOWN9C (PutUint16 0x000E)"

definition writeUseSelfs :: "byte list" where
  "writeUseSelfs = writeRecord recTypeUSESELFS (PutUint16 1)"

definition writeProt4Rev :: "byte list" where
  "writeProt4Rev = writeRecord recTypePROT4REV (PutUint16 0)"

definition writePasswordRev4 :: "byte list" where
  "writePasswordRev4 = writeRecord recTypePASSWORDREV4 (PutUint16 0)"

definition writeLeftMargin :: "byte list" where
  "writeLeftMargin = writeRecord recTypeLEFTMARGIN (PutUint64 0x3FE8000000000000)"

definition writeRightMargin :: "byte list" where
  "writeRightMargin = writeRecord recTypeRIGHTMARGIN (PutUint64 0x3FE8000000000000)"

definition writeTopMargin :: "byte list" where
  "writeTopMargin = writeRecord recTypeTOPMARGIN (PutUint64 0x3FF0000000000000)"

definition writeBottomMargin :: "byte list" where
  "writeBottomMargin = writeRecord recTypeBOTTOMMARGIN (PutUint64 0x3FF0000000000000)"

definition writeHCenter :: "byte list" where
  "writeHCenter = writeRecord recTypeHCENTER (PutUint16 0)"

definition writeVCenter :: "byte list" where
  "writeVCenter = writeRecord recTypeVCENTER (PutUint16 0)"

definition writeSetup :: "byte list" where
  "writeSetup = writeRecord recTypeSETUP
     (PutUint16 1 @ PutUint16 100 @ PutUint16 1 @ PutUint16 1 @ PutUint16 1 @ PutUint16 0x0000
      @ PutUint16 600 @ PutUint16 600 @ PutUint16 1 @ replicate 16 0)"

definition writeGridSet :: "byte list" where
  "writeGridSet = writeRecord recTypeGRIDSET (PutUint16 1)"

definition writeGuts :: "byte list" where
  "writeGuts = writeRecord recTypeGUTS (PutUint16 0 @ PutUint16 0 @ PutUint16 0 @ PutUint16 0)"

definition writeObjProtect :: "byte list" where
  "writeObjProtect = writeRecord recTypeOBJPROTECT (PutUint16 0)"

definition writeScenProtect :: "byte list" where
  "writeScenProtect = writeRecord recTypeSCENPROTECT (PutUint16 0)"

definition writeHBreak :: "byte list" where
  "writeHBreak = writeRecord recTypeHBREAK (PutUint16 0)"

definition writeVBreak :: "byte list" where
  "writeVBreak = writeRecord recTypeVBREAK (PutUint16 0)"

definition writeHeader :: "byte list" where
  "writeHeader = writeRecord recTypeHEADER (PutUint16 0 @ [0x00, 0x00, 0x00])"

definition writeFooter :: "byte list" where
  "writeFooter = writeRecord recTypeFOOTER (PutUint16 0 @ [0x00, 0x00, 0x00])"

subsection \<open>Records that depend on the input\<close>

definition writeBoundSheet :: "32 word \<Rightarrow> gostring \<Rightarrow> byte list" where
  "writeBoundSheet offset name =
     (let nameBytes = stringToUTF16LE name;
          nameLen = length (runes name)
      in writeRecord recTypeBOUNDSHEET
           (PutUint32 offset @ [0, 0] @ [of_nat nameLen, 0x01] @ nameBytes))"

text \<open>The loop of \<open>writeDimensions\<close> over the rows, with \<open>colCount\<close> as its state.\<close>

fun maxColCount :: "16 word \<Rightarrow> cell list list \<Rightarrow> 16 word" where
  "maxColCount colCount [] = colCount"
| "maxColCount colCount (row # rows) =
     (if of_nat (length row) > colCount then maxColCount (of_nat (length row)) rows
      else maxColCount colCount rows)"

definition writeDimensions :: "Writer \<Rightarrow> byte list" where
  "writeDimensions w =
     (let rowCount = (of_nat (length (data w)) :: 32 word);
          colCount = maxColCount 0 (data w)
      in writeRecord recTypeDIMENSIONS
           (PutUint32 0 @ PutUint32 rowCount @ PutUint16 0 @ PutUint16 colCount @ PutUint16 0))"

definition writeRow :: "16 word \<Rightarrow> 16 word \<Rightarrow> byte list" where
  "writeRow rowIndex colCount = writeRecord recTypeROW
     (PutUint16 rowIndex @ PutUint16 0 @ PutUint16 colCount @ PutUint16 0x00FF @ PutUint16 0
      @ PutUint16 0 @ PutUint32 0x000F0000)"

definition writeLabelSST ::
  "16 word \<Rightarrow> 16 word \<Rightarrow> gostring \<Rightarrow> sharedStringTable \<Rightarrow> byte list" where
  "writeLabelSST row col val sst =
     (let sstIndex = getIndex sst val
      in writeRecord recTypeLABELSST
           (PutUint16 row @ PutUint16 col @ PutUint16 0 @ PutUint32 (of_int sstIndex)))"

definition writeNumber :: "16 word \<Rightarrow> 16 word \<Rightarrow> 64 word \<Rightarrow> byte list" where
  "writeNumber row col bits = writeRecord recTypeNUMBER
     (PutUint16 row @ PutUint16 col @ PutUint16 0 @ PutUint64 bits)"

definition writeBool :: "16 word \<Rightarrow> 16 word \<Rightarrow> bool \<Rightarrow> byte list" where
  "writeBool row col val = writeRecord recTypeBOOLERR
     (PutUint16 row @ PutUint16 col @ PutUint16 0 @ [if val then 1 else 0, 0])"

fun writeCell :: "16 word \<Rightarrow> 16 word \<Rightarrow> cell \<Rightarrow> sharedStringTable \<Rightarrow> byte list" where
  "writeCell row col (CellString v) sst = writeLabelSST row col v sst"
| "writeCell row col (CellNumber v) sst = writeNumber row col v"
| "writeCell row col (CellBool v) sst = writeBool row col v"
| "writeCell row col (CellOther formatted) sst = writeLabelSST row col formatted sst"

text \<open>
  The two loops of \<open>writeRowsAndCells\<close>; the first argument is the loop index
  (\<^verbatim>\<open>colIndex\<close>, \<^verbatim>\<open>rowIndex\<close>), cast to \<^verbatim>\<open>uint16\<close> at each call as in the source.
\<close>

fun writeCells :: "nat \<Rightarrow> 16 word \<Rightarrow> cell list \<Rightarrow> sharedStringTable \<Rightarrow> byte list" where
  "writeCells colIndex row [] sst = []"
| "writeCells colIndex row (c # cs) sst =
     writeCell row (of_nat colIndex) c sst @ writeCells (Suc colIndex) row cs sst"

fun writeRows :: "nat \<Rightarrow> cell list list \<Rightarrow> sharedStringTable \<Rightarrow> byte list" where
  "writeRows rowIndex [] sst = []"
| "writeRows rowIndex (row # rows) sst =
     writeRow (of_nat rowIndex) (of_nat (length row))
     @ writeCells 0 (of_nat rowIndex) row sst
     @ writeRows (Suc rowIndex) rows sst"

definition writeRowsAndCells :: "Writer \<Rightarrow> sharedStringTable \<Rightarrow> byte list" where
  "writeRowsAndCells w sst = writeRows 0 (data w) sst"

text \<open>The loop of \<open>writeSST\<close> over \<^verbatim>\<open>sst.strings\<close>, with the payload \<^verbatim>\<open>data\<close> as its state.\<close>

fun appendSSTStrings :: "byte list \<Rightarrow> gostring list \<Rightarrow> error + byte list" where
  "appendSSTStrings payload [] = Inr payload"
| "appendSSTStrings payload (str # strs) =
     (case encodeStringForSST str of
        Inl err \<Rightarrow> Inl err
      | Inr strData \<Rightarrow> appendSSTStrings (payload @ strData) strs)"

definition writeSST :: "sharedStringTable \<Rightarrow> error + byte list" where
  "writeSST sst =
     (case appendSSTStrings
             (PutUint32 (of_int (totalCount sst)) @ PutUint32 (of_int (uniqueCount sst)))
             (strings sst) of
        Inl err \<Rightarrow> Inl err
      | Inr payload \<Rightarrow> Inr (writeRecord recTypeSST payload))"

subsection \<open>writeBIFF8\<close>

text \<open>
  The pre-walk at the head of \<open>writeBIFF8\<close>: for every row, for every cell, the cell is
  added to the table when its dynamic type is \<^verbatim>\<open>string\<close> and skipped otherwise.
\<close>

fun sstOfCells :: "sharedStringTable \<Rightarrow> cell list \<Rightarrow> sharedStringTable" where
  "sstOfCells sst [] = sst"
| "sstOfCells sst (CellString str # cs) = sstOfCells (addString sst str) cs"
| "sstOfCells sst (c # cs) = sstOfCells sst cs"

fun sstOfRows :: "sharedStringTable \<Rightarrow> cell list list \<Rightarrow> sharedStringTable" where
  "sstOfRows sst [] = sst"
| "sstOfRows sst (row # rows) = sstOfRows (sstOfCells sst row) rows"

text \<open>
  The straight-line parts of \<open>writeBIFF8\<close>: the workbook globals from the BOF record to
  USESELFS, and the worksheet records from its BOF record to PASSWORD.
\<close>

definition workbookGlobals :: "byte list" where
  "workbookGlobals =
     writeBOF bofWorkbook @ writeInterfaceHdr @ writeMMS @ writeInterfaceEnd
     @ writeWriteAccess @ writeCodePage @ writeDSF @ writeFnGroupCount @ writeUnknown9C
     @ writeWindowProtect @ writeProtect @ writeObjProtect @ writePassword @ writeProt4Rev
     @ writePasswordRev4 @ writeBackup @ writeHideObj @ writeWindow1 @ writeDateMode
     @ writePrecision @ writeRefreshAll @ writeBookBool
     @ concat (replicate 7 writeDefaultFont)
     @ writeFormat
     @ concat (replicate 16 (writeXF True 6))
     @ writeXF False 6 @ writeXF False 7
     @ writeDefaultStyle @ writeUseSelfs"

definition worksheetHead :: "Writer \<Rightarrow> byte list" where
  "worksheetHead w =
     writeBOF bofWorksheet
     @ writeCalcMode @ writeCalcCount @ writeRefMode @ writeIteration @ writeDelta
     @ writeSaveRecalc
     @ writeGuts @ writeDefaultRowHeight @ writeWSBool
     @ writeDimensions w
     @ writePrintHeaders @ writePrintGridlines @ writeGridSet @ writeHBreak @ writeVBreak
     @ writeHeader @ writeFooter @ writeHCenter @ writeVCenter
     @ writeLeftMargin @ writeRightMargin @ writeTopMargin @ writeBottomMargin @ writeSetup
     @ writeProtect @ writeScenProtect @ writeWindowProtect @ writeObjProtect @ writePassword"

text \<open>
  \<open>writeBIFF8 w buf\<close>: \<open>buf\<close> is the content of the buffer on entry (\<open>SaveAs\<close> passes a new,
  empty one), the result its content on return. \<^verbatim>\<open>buf.Len()\<close> is the length of the content
  at that point; the SST record is first written to the scratch buffer \<open>sstBuf\<close>.
\<close>

definition writeBIFF8 :: "Writer \<Rightarrow> byte list \<Rightarrow> error + byte list" where
  "writeBIFF8 w buf =
     (let sst = sstOfRows newSST (data w);
          buf1 = buf @ workbookGlobals
      in case writeSST sst of
           Inl err \<Rightarrow> Inl err
         | Inr sstBuf \<Rightarrow>
             (let sheetNameBytes = stringToUTF16LE (sheetName w);
                  boundsheetSize = 4 + 6 + 1 + length sheetNameBytes + 1;
                  worksheetOffset = length buf1 + length sstBuf + boundsheetSize + 4;
                  buf2 = buf1 @ sstBuf;
                  buf3 = buf2 @ writeBoundSheet (of_nat worksheetOffset) (sheetName w);
                  buf4 = buf3 @ writeEOF;
                  buf5 = buf4 @ worksheetHead w;
                  buf6 = buf5 @ writeRowsAndCells w sst;
                  buf7 = buf6 @ writeWindow2;
                  buf8 = buf7 @ writeEOF
              in Inr buf8))"

section \<open>The CFB container writer (cfb.go)\<close>

definition cfbHeaderSize :: nat where "cfbHeaderSize = 512"
definition cfbSectorSize :: nat where "cfbSectorSize = 512"
definition cfbFATSector :: "32 word" where "cfbFATSector = 0xFFFFFFFD"
definition cfbEndOfChain :: "32 word" where "cfbEndOfChain = 0xFFFFFFFE"
definition cfbFreeSector :: "32 word" where "cfbFreeSector = 0xFFFFFFFF"

text \<open>
  Go's built-in \<^verbatim>\<open>copy(dst, src)\<close> overwrites the first \<open>min (len dst) (len src)\<close>
  elements of \<open>dst\<close>. An assignment \<^verbatim>\<open>xs[i] = v\<close> to a slice panics with
  ``index out of range'' when \<open>i\<close> is not below the length: \<open>None\<close> here.
\<close>

definition gocopy :: "'a list \<Rightarrow> 'a list \<Rightarrow> 'a list" where
  "gocopy dst src = take (length dst) src @ drop (length src) dst"

definition setIndex :: "'a list \<Rightarrow> nat \<Rightarrow> 'a \<Rightarrow> 'a list option" where
  "setIndex xs i v = (if i < length xs then Some (xs[i := v]) else None)"

subsection \<open>CFBHeader\<close>

record CFBHeader =
  Signature :: "byte list"
  CLSID :: "byte list"
  MinorVersion :: "16 word"
  MajorVersion :: "16 word"
  ByteOrder :: "16 word"
  SectorShift :: "16 word"
  MiniSectorShift :: "16 word"
  Reserved :: "byte list"
  TotalSectors :: "32 word"
  FATSectors :: "32 word"
  FirstDirSector :: "32 word"
  TransactionSig :: "32 word"
  MiniStreamCutoff :: "32 word"
  FirstMiniFATSector :: "32 word"
  MiniFATSectors :: "32 word"
  FirstDIFATSector :: "32 word"
  DIFATSectors :: "32 word"
  DIFAT :: "32 word list"

text \<open>
  The arrays \<^verbatim>\<open>[8]byte\<close>, \<^verbatim>\<open>[16]byte\<close>, \<^verbatim>\<open>[6]byte\<close> and \<^verbatim>\<open>[109]uint32\<close> are lists of
  that length; fields the composite literal does not name are zero.
\<close>

definition NewCFBHeader :: CFBHeader where
  "NewCFBHeader =
     \<lparr>Signature = [0xD0, 0xCF, 0x11, 0xE0, 0xA1, 0xB1, 0x1A, 0xE1],
      CLSID = replicate 16 0,
      MinorVersion = 0x003E,
      MajorVersion = 0x0003,
      ByteOrder = 0xFFFE,
      SectorShift = 0x0009,
      MiniSectorShift = 0x0006,
      Reserved = replicate 6 0,
      TotalSectors = 0,
      FATSectors = 0,
      FirstDirSector = 0,
      TransactionSig = 0,
      MiniStreamCutoff = 0x00001000,
      FirstMiniFATSector = cfbEndOfChain,
      MiniFATSectors = 0,
      FirstDIFATSector = cfbEndOfChain,
      DIFATSectors = 0,
      DIFAT = replicate 109 cfbFreeSector\<rparr>"

text \<open>
  \<^verbatim>\<open>(*CFBHeader).WriteTo\<close>: the 512-byte buffer it writes. The fields cover the buffer
  without gaps (76 bytes, then 109 DIFAT entries of 4 bytes).
\<close>

definition CFBHeader_WriteTo :: "CFBHeader \<Rightarrow> byte list" where
  "CFBHeader_WriteTo h =
     Signature h @ CLSID h
     @ PutUint16 (MinorVersion h) @ PutUint16 (MajorVersion h) @ PutUint16 (ByteOrder h)
     @ PutUint16 (SectorShift h) @ PutUint16 (MiniSectorShift h)
     @ Reserved h
     @ PutUint32 (TotalSectors h) @ PutUint32 (FATSectors h) @ PutUint32 (FirstDirSector h)
     @ PutUint32 (TransactionSig h) @ PutUint32 (MiniStreamCutoff h)
     @ PutUint32 (FirstMiniFATSector h) @ PutUint32 (MiniFATSectors h)
     @ PutUint32 (FirstDIFATSector h) @ PutUint32 (DIFATSectors h)
     @ concat (map PutUint32 (DIFAT h))"

subsection \<open>CFBDirectoryEntry\<close>

record CFBDirectoryEntry =
  Name :: "byte list"
  NameLength :: "16 word"
  ObjectType :: byte
  ColorFlag :: byte
  LeftSiblingDID :: "32 word"
  RightSiblingDID :: "32 word"
  ChildDID :: "32 word"
  EntryCLSID :: "byte list"
  StateBits :: "32 word"
  CreationTime :: "64 word"
  ModifiedTime :: "64 word"
  StartSector :: "32 word"
  StreamSize :: "64 word"

text \<open>The zero value of the struct (\<open>EntryCLSID\<close> is the field \<^verbatim>\<open>CLSID\<close> of the entry).\<close>

definition zeroEntry :: CFBDirectoryEntry where
  "zeroEntry =
     \<lparr>Name = replicate 64 0, NameLength = 0, ObjectType = 0, ColorFlag = 0,
      LeftSiblingDID = 0, RightSiblingDID = 0, ChildDID = 0, EntryCLSID = replicate 16 0,
      StateBits = 0, CreationTime = 0, ModifiedTime = 0, StartSector = 0, StreamSize = 0\<rparr>"

definition CFBDirectoryEntry_WriteTo :: "CFBDirectoryEntry \<Rightarrow> byte list" where
  "CFBDirectoryEntry_WriteTo e =
     Name e @ PutUint16 (NameLength e) @ [ObjectType e, ColorFlag e]
     @ PutUint32 (LeftSiblingDID e) @ PutUint32 (RightSiblingDID e) @ PutUint32 (ChildDID e)
     @ EntryCLSID e @ PutUint32 (StateBits e)
     @ PutUint64 (CreationTime e) @ PutUint64 (ModifiedTime e)
     @ PutUint32 (StartSector e) @ PutUint64 (StreamSize e)"

subsection \<open>WriteCFB\<close>

text \<open>
  The loop \<^verbatim>\<open>for i := 0; i < dataSectors; i++\<close> that chains the data sectors in the FAT;
  the state is the index and the slice, and an assignment out of range ends it with a panic.
\<close>

function fatChain :: "nat \<Rightarrow> nat \<Rightarrow> 32 word list \<Rightarrow> 32 word list option" where
  "fatChain i dataSectors fat =
     (if i < dataSectors then
        (case setIndex fat i (if i = dataSectors - 1 then cfbEndOfChain else of_nat (i + 1)) of
           None \<Rightarrow> None
         | Some fat' \<Rightarrow> fatChain (i + 1) dataSectors fat')
      else Some fat)"
  by pat_completeness auto
termination
  by (relation "measure (\<lambda>(i, dataSectors, fat). dataSectors - i)") auto

declare fatChain.simps [simp del]

text \<open>
  The block ``Write FAT'' of \<open>WriteCFB\<close> up to the point where the table is serialised:
  128 free entries, the chain of the data sectors, then the entries of the FAT sector and
  of the directory sector. \<open>None\<close> is the panic of an assignment out of range.
\<close>

definition fatTable :: "nat \<Rightarrow> 32 word list option" where
  "fatTable dataSectors =
     (let fatSector = dataSectors;
          dirSector = dataSectors + 1;
          fat = replicate (cfbSectorSize div 4) cfbFreeSector
      in case fatChain 0 dataSectors fat of
           None \<Rightarrow> None
         | Some fat1 \<Rightarrow>
             (case setIndex fat1 fatSector cfbFATSector of
                None \<Rightarrow> None
              | Some fat2 \<Rightarrow> setIndex fat2 dirSector cfbEndOfChain))"

text \<open>
  The block ``Write Directory'': the entries \<^verbatim>\<open>root\<close>, \<^verbatim>\<open>workbook\<close> and \<^verbatim>\<open>empty\<close> are
  written through \<^verbatim>\<open>bufferWriter\<close>s into the four 128-byte quarters of \<^verbatim>\<open>dirBuf\<close>
  (\<^verbatim>\<open>empty\<close> twice, by way of \<^verbatim>\<open>tmpBuf\<close>); the result is \<^verbatim>\<open>dirBuf\<close>.
\<close>

definition directorySector :: "nat \<Rightarrow> byte list" where
  "directorySector dataSize =
     (let rootName = stringToUTF16LE (ascii ''Root Entry'');
          root = zeroEntry
            \<lparr>NameLength := of_nat (length rootName + 2), ObjectType := 5, ColorFlag := 1,
             LeftSiblingDID := cfbFreeSector, RightSiblingDID := cfbFreeSector,
             ChildDID := 1, StartSector := cfbEndOfChain, StreamSize := 0\<rparr>;
          root = root\<lparr>Name := (gocopy (Name root) rootName)
                              [length rootName := 0, length rootName + 1 := 0]\<rparr>;
          wbName = stringToUTF16LE (ascii ''Workbook'');
          workbook = zeroEntry
            \<lparr>NameLength := of_nat (length wbName + 2), ObjectType := 2, ColorFlag := 1,
             LeftSiblingDID := cfbFreeSector, RightSiblingDID := cfbFreeSector,
             ChildDID := cfbFreeSector, StartSector := 0, StreamSize := of_nat dataSize\<rparr>;
          workbook = workbook\<lparr>Name := (gocopy (Name workbook) wbName)
                                      [length wbName := 0, length wbName + 1 := 0]\<rparr>;
          empty = zeroEntry
            \<lparr>ObjectType := 0, LeftSiblingDID := cfbFreeSector,
             RightSiblingDID := cfbFreeSector, ChildDID := cfbFreeSector,
             StartSector := cfbEndOfChain\<rparr>
      in CFBDirectoryEntry_WriteTo root @ CFBDirectoryEntry_WriteTo workbook
         @ CFBDirectoryEntry_WriteTo empty @ CFBDirectoryEntry_WriteTo empty)"

text \<open>
  How a call of \<open>WriteCFB\<close> ends: it returns \<^verbatim>\<open>nil\<close>, or it panics. (It returns an error only
  when the sink's \<^verbatim>\<open>Write\<close> fails; the sink here takes every write.)
\<close>

datatype outcome = ReturnedNil | PanicIndexOutOfRange

text \<open>
  \<open>WriteCFB workbookData\<close> gives the bytes written to the sink, in order, and the way the
  call ends: the header and the padded data are written before the FAT is built, the FAT
  sector and the directory sector after it.
\<close>

definition WriteCFB :: "byte list \<Rightarrow> byte list \<times> outcome" where
  "WriteCFB workbookData =
     (let dataSize = (if length workbookData < 4096 then 4096 else length workbookData);
          dataSectors = (dataSize + cfbSectorSize - 1) div cfbSectorSize;
          fatSector = dataSectors;
          dirSector = dataSectors + 1;
          header = NewCFBHeader\<lparr>FATSectors := 1\<rparr>;
          header = header\<lparr>FirstDirSector := of_nat dirSector\<rparr>;
          header = header\<lparr>DIFAT := (DIFAT header)[0 := of_nat fatSector]\<rparr>;
          out1 = CFBHeader_WriteTo header;
          paddedData = gocopy (replicate (dataSectors * cfbSectorSize) 0) workbookData;
          out2 = out1 @ paddedData
      in case fatTable dataSectors of
           None \<Rightarrow> (out2, PanicIndexOutOfRange)
         | Some fat \<Rightarrow>
             (let fatBuf = concat (map PutUint32 fat);
                  out3 = out2 @ fatBuf;
                  dirBuf = directorySector dataSize
              in (out3 @ dirBuf, ReturnedNil)))"

section \<open>SaveAs, and reading a stream back\<close>

text \<open>
  \<open>SaveAs\<close> without the file system: the BIFF8 stream is built in a new buffer and handed
  to \<open>WriteCFB\<close>; the result holds the bytes that reach the file.
\<close>

definition SaveAs :: "Writer \<Rightarrow> error + byte list \<times> outcome" where
  "SaveAs w =
     (case writeBIFF8 w [] of
        Inl err \<Rightarrow> Inl err
      | Inr bytes \<Rightarrow> Inr (WriteCFB bytes))"

text \<open>
  What a reader of the output does, used to state the properties below:
  \<^verbatim>\<open>binary.LittleEndian.Uint16/Uint32\<close> read a field from the head of a slice, and
  \<open>parseRecords\<close> walks a stream record by record (type, length, payload) and gives
  \<open>None\<close> when a header or a payload is cut short.
\<close>

definition Uint16 :: "byte list \<Rightarrow> 16 word" where
  "Uint16 b = ucast (b ! 0) OR push_bit 8 (ucast (b ! 1))"

definition Uint32 :: "byte list \<Rightarrow> 32 word" where
  "Uint32 b = ucast (b ! 0) OR push_bit 8 (ucast (b ! 1)) OR push_bit 16 (ucast (b ! 2))
     OR push_bit 24 (ucast (b ! 3))"

fun parseRecords :: "byte list \<Rightarrow> (16 word \<times> byte list) list option" where
  "parseRecords [] = Some []"
| "parseRecords (t0 # t1 # l0 # l1 # rest) =
     (if length rest < unat (Uint16 [l0, l1]) then None
      else case parseRecords (drop (unat (Uint16 [l0, l1])) rest) of
             None \<Rightarrow> None
           | Some recs \<Rightarrow> Some ((Uint16 [t0, t1], take (unat (Uint16 [l0, l1])) rest) # recs))"
| "parseRecords bs = None"

text \<open>The bytes of a list of records, each written by \<open>writeRecord\<close>.\<close>

definition writeRecords :: "(16 word \<times> byte list) list \<Rightarrow> byte list" where
  "writeRecords recs = concat (map (\<lambda>(recType, payload). writeRecord recType payload) recs)"

text \<open>The texts of the string-typed cells of a row and of a table, in reading order.\<close>

fun stringCells :: "cell list \<Rightarrow> gostring list" where
  "stringCells [] = []"
| "stringCells (CellString s # cs) = s # stringCells cs"
| "stringCells (c # cs) = stringCells cs"

definition tableStrings :: "cell list list \<Rightarrow> gostring list" where
  "tableStrings d = concat (map stringCells d)"

text \<open>
  The number of data sectors of the sector plan, \<open>ceil (max (len workbook) 4096 / 512)\<close>, and
  the FAT that the plan prescribes for a 128-entry sector.
\<close>

definition dataSectorsOf :: "byte list \<Rightarrow> nat" where
  "dataSectorsOf workbookData = (max (length workbookData) 4096 + 511) div 512"

definition expectedFAT :: "nat \<Rightarrow> 32 word list" where
  "expectedFAT ds =
     map (\<lambda>i. if i + 1 < ds then of_nat (i + 1)
              else if i + 1 = ds then cfbEndOfChain
              else if i = ds then cfbFATSector
              else if i = ds + 1 then cfbEndOfChain
              else cfbFreeSector) [0..<128]"

text \<open>
  A record of the fixed parts of a stream: its payload fits the 16-bit length field, and it
  is no row, cell, DIMENSIONS or SST record.
\<close>

definition plain :: "16 word \<times> byte list \<Rightarrow> bool" where
  "plain r = (length (snd r) < 65536 \<and> fst r \<noteq> recTypeROW \<and> fst r \<noteq> recTypeLABELSST
     \<and> fst r \<noteq> recTypeNUMBER \<and> fst r \<noteq> recTypeBOOLERR \<and> fst r \<noteq> recTypeLABEL
     \<and> fst r \<noteq> recTypeDIMENSIONS \<and> fst r \<noteq> recTypeSST)"

section \<open>Basic facts about fields and records\<close>

lemma length_PutUint16 [simp]: "length (PutUint16 v) = 2"
  by (simp add: PutUint16_def)

lemma length_PutUint32 [simp]: "length (PutUint32 v) = 4"
  by (simp add: PutUint32_def)

lemma length_PutUint64 [simp]: "length (PutUint64 v) = 8"
  by (simp add: PutUint64_def)

lemma Uint16_PutUint16 [simp]: "Uint16 (PutUint16 v @ rest) = v"
  unfolding Uint16_def PutUint16_def
  by (rule bit_word_eqI) (auto simp add: bit_simps)

lemma Uint32_PutUint32 [simp]: "Uint32 (PutUint32 v @ rest) = v"
proof (rule bit_word_eqI)
  fix n
  assume "n < LENGTH(32)"
  then consider "n < 8" | "8 \<le> n" "n < 16" | "16 \<le> n" "n < 24" | "24 \<le> n" "n < 32"
    by fastforce
  then show "bit (Uint32 (PutUint32 v @ rest)) n = bit v n"
    unfolding Uint32_def PutUint32_def
    by cases (auto simp add: bit_simps)
qed

lemma writeRecord_eq: "writeRecord t p = PutUint16 t @ PutUint16 (of_nat (length p)) @ p"
  by (simp add: writeRecord_def)

lemma length_writeRecord [simp]: "length (writeRecord t p) = 4 + length p"
  by (simp add: writeRecord_eq)

lemma Uint16_PutUint16_only [simp]: "Uint16 (PutUint16 v) = v"
  using Uint16_PutUint16 [of v "[]"] by simp

lemma Uint32_PutUint32_only [simp]: "Uint32 (PutUint32 v) = v"
  using Uint32_PutUint32 [of v "[]"] by simp

lemma length_ascii [simp]: "length (ascii s) = length s"
  by (simp add: ascii_def)

lemma length_concat_PutUint16:
  "length (concat (map (\<lambda>r. PutUint16 (f r)) rs)) = 2 * length rs"
  by (induction rs) simp_all

lemma length_concat_PutUint32: "length (concat (map PutUint32 xs)) = 4 * length xs"
  by (induction xs) simp_all

lemma Uint16_drop_concat:
  "i < length rs \<Longrightarrow>
     Uint16 (drop (2 * i) (concat (map (\<lambda>r. PutUint16 (f r)) rs))) = f (rs ! i)"
proof (induction rs arbitrary: i)
  case Nil
  then show ?case by simp
next
  case (Cons r rs)
  show ?case
  proof (cases i)
    case 0
    then show ?thesis by simp
  next
    case (Suc k)
    with Cons show ?thesis by simp
  qed
qed

section \<open>The record emitter\<close>

text \<open>
  Claim C6, as amended. For every record type and payload, \<open>writeRecord\<close> appends the
  type as a little-endian u16, then a little-endian u16 length field, then the payload,
  and nothing else. The length field holds the payload's length reduced modulo \<open>2^16\<close>
  (the cast \<^verbatim>\<open>uint16(len(data))\<close>); it equals the payload's length whenever the payload
  is shorter than 65536 bytes.
\<close>

theorem writeRecord_layout:
  "writeRecord t p = PutUint16 t @ PutUint16 (of_nat (length p)) @ p
   \<and> unat (Uint16 (drop 2 (writeRecord t p))) = length p mod 65536
   \<and> (length p < 65536 \<longrightarrow> unat (Uint16 (drop 2 (writeRecord t p))) = length p)"
  by (simp add: writeRecord_eq unat_of_nat)

theorem writeRecord_layout_witness:
  "length [1, 2, 3 :: byte] < 65536
   \<and> writeRecord recTypeEOF [1, 2, 3] = [0x0A, 0, 3, 0, 1, 2, 3]
   \<and> unat (Uint16 (drop 2 (writeRecord recTypeEOF [1, 2, 3]))) = 3"
  using writeRecord_layout [of recTypeEOF "[1, 2, 3]"]
  by (simp add: recTypeEOF_def PutUint16_def Uint16_def)

text \<open>
  Claim C6 as stated fails for a payload of 65536 bytes (an SST payload of that size arises
  from a few thousand distinct strings): the length field reads 0, the payload's length is
  65536.
\<close>

theorem writeRecord_length_field_counterexample:
  "unat (Uint16 (drop 2 (writeRecord recTypeSST (replicate 65536 0)))) = 0
   \<and> length (replicate 65536 (0 :: byte)) = 65536"
  by (simp add: writeRecord_eq unat_of_nat)

section \<open>The shared string table\<close>

lemma addStrings_Nil [simp]: "addStrings sst [] = sst"
  by (simp add: addStrings_def)

lemma addStrings_Cons [simp]: "addStrings sst (s # ss) = addStrings (addString sst s) ss"
  by (simp add: addStrings_def)

lemma addStrings_append: "addStrings sst (xs @ ys) = addStrings (addStrings sst xs) ys"
  by (simp add: addStrings_def)

lemma addStrings_snoc: "addStrings sst (ss @ [s]) = addString (addStrings sst ss) s"
  by (simp add: addStrings_def)

lemma addString_known:
  "stringMap sst s = Some i \<Longrightarrow> addString sst s = sst\<lparr>totalCount := totalCount sst + 1\<rparr>"
  by (simp add: addString_def)

lemma addString_new:
  "stringMap sst s = None \<Longrightarrow>
     addString sst s = sst\<lparr>totalCount := totalCount sst + 1,
       stringMap := (stringMap sst)(s \<mapsto> uniqueCount sst),
       strings := strings sst @ [s],
       uniqueCount := uniqueCount sst + 1\<rparr>"
  by (simp add: addString_def)

lemma addString_keeps:
  "stringMap sst s = Some i \<Longrightarrow> stringMap (addString sst t) s = Some i"
  by (cases "stringMap sst t") (auto simp add: addString_def)

lemma addStrings_keeps:
  "stringMap sst s = Some i \<Longrightarrow> stringMap (addStrings sst later) s = Some i"
  by (induction later arbitrary: sst) (simp_all add: addString_keeps)

text \<open>
  What holds of every table reached from \<open>newSST\<close> by \<open>addString\<close> calls: the list and the
  map hold exactly the strings added, the list has no duplicates, the counters count the
  list and the calls, and the map sends each string to its position in the list.
\<close>

lemma sst_reachable:
  "set (strings (addStrings newSST ss)) = set ss
   \<and> dom (stringMap (addStrings newSST ss)) = set ss
   \<and> distinct (strings (addStrings newSST ss))
   \<and> uniqueCount (addStrings newSST ss) = int (length (strings (addStrings newSST ss)))
   \<and> totalCount (addStrings newSST ss) = int (length ss)
   \<and> (\<forall>s i. stringMap (addStrings newSST ss) s = Some i \<longrightarrow>
          0 \<le> i \<and> nat i < length (strings (addStrings newSST ss))
          \<and> strings (addStrings newSST ss) ! nat i = s)"
proof (induction ss rule: rev_induct)
  case Nil
  show ?case by (simp add: newSST_def)
next
  case (snoc x xs)
  let ?st = "addStrings newSST xs"
  from snoc have s: "set (strings ?st) = set xs" and d: "dom (stringMap ?st) = set xs"
    and di: "distinct (strings ?st)" and u: "uniqueCount ?st = int (length (strings ?st))"
    and t: "totalCount ?st = int (length xs)"
    and ix: "\<And>s i. stringMap ?st s = Some i \<Longrightarrow>
          0 \<le> i \<and> nat i < length (strings ?st) \<and> strings ?st ! nat i = s"
    by blast+
  show ?case
  proof (cases "stringMap ?st x")
    case None
    then have nx: "x \<notin> set xs" using d by (auto simp add: domIff)
    define st' where "st' = addStrings newSST (xs @ [x])"
    have eq: "st' = ?st\<lparr>totalCount := totalCount ?st + 1,
       stringMap := (stringMap ?st)(x \<mapsto> uniqueCount ?st),
       strings := strings ?st @ [x],
       uniqueCount := uniqueCount ?st + 1\<rparr>"
      by (simp add: st'_def addStrings_snoc addString_new [OF None])
    have c1: "set (strings st') = set (xs @ [x])" using s by (simp add: eq)
    have c2: "dom (stringMap st') = set (xs @ [x])" using d by (simp add: eq)
    have c3: "distinct (strings st')" using di nx s by (simp add: eq)
    have c4: "uniqueCount st' = int (length (strings st'))" using u by (simp add: eq)
    have c5: "totalCount st' = int (length (xs @ [x]))" using t by (simp add: eq)
    have c6: "0 \<le> i \<and> nat i < length (strings st') \<and> strings st' ! nat i = s"
      if "stringMap st' s = Some i" for s i
    proof (cases "s = x")
      case True
      with that u have "i = int (length (strings ?st))" by (simp add: eq)
      with True show ?thesis by (simp add: eq)
    next
      case False
      with that have "stringMap ?st s = Some i" by (simp add: eq)
      from ix [OF this] show ?thesis by (simp add: eq nth_append)
    qed
    show ?thesis
      using c1 c2 c3 c4 c5 c6 unfolding st'_def by blast
  next
    case (Some i)
    then have "x \<in> set xs" using d by (auto simp add: domIff)
    then show ?thesis
      using s d di u t ix by (auto simp add: addStrings_snoc addString_known [OF Some])
  qed
qed

lemma sst_index:
  "stringMap (addStrings newSST ss) s = Some i \<Longrightarrow>
     0 \<le> i \<and> nat i < length (strings (addStrings newSST ss))
     \<and> strings (addStrings newSST ss) ! nat i = s"
  using sst_reachable [of ss] by blast

text \<open>
  Claim C2. After every sequence \<open>ss\<close> of \<open>addString\<close> calls on a fresh table (so at every
  point of every run): \<open>uniqueCount\<close> is the size of the string-to-index map and the length
  of the ordered list, \<open>totalCount\<close> is at least \<open>uniqueCount\<close>, and the index of a string
  that has been added stays what it is under any later calls.
\<close>

theorem sst_invariants:
  "uniqueCount (addStrings newSST ss) = int (card (dom (stringMap (addStrings newSST ss))))
   \<and> uniqueCount (addStrings newSST ss) = int (length (strings (addStrings newSST ss)))
   \<and> uniqueCount (addStrings newSST ss) \<le> totalCount (addStrings newSST ss)
   \<and> (\<forall>s \<in> set ss. \<forall>later.
         stringMap (addStrings newSST (ss @ later)) s = stringMap (addStrings newSST ss) s
       \<and> getIndex (addStrings newSST (ss @ later)) s = getIndex (addStrings newSST ss) s)"
proof -
  let ?st = "addStrings newSST ss"
  note r = sst_reachable [of ss]
  have card: "card (dom (stringMap ?st)) = length (strings ?st)"
    using r distinct_card [of "strings ?st"] by simp
  have le: "length (strings ?st) \<le> length ss"
    using r card card_length [of ss] by simp
  have keep: "stringMap (addStrings newSST (ss @ later)) s = stringMap ?st s"
    if "s \<in> set ss" for s later
  proof -
    from that r have "s \<in> dom (stringMap ?st)" by blast
    then obtain i where "stringMap ?st s = Some i" by blast
    then show ?thesis by (simp add: addStrings_append addStrings_keeps)
  qed
  show ?thesis using r card le keep by (simp add: getIndex_def)
qed

theorem sst_invariants_witness:
  "uniqueCount (addStrings newSST [ascii ''Hello'', ascii ''World'', ascii ''Hello'']) = 2
   \<and> totalCount (addStrings newSST [ascii ''Hello'', ascii ''World'', ascii ''Hello'']) = 3
   \<and> getIndex (addStrings newSST
        ([ascii ''Hello'', ascii ''World'', ascii ''Hello''] @ [ascii ''Again'', ascii ''World'']))
        (ascii ''World'')
     = getIndex (addStrings newSST [ascii ''Hello'', ascii ''World'', ascii ''Hello''])
        (ascii ''World'')"
  using sst_invariants [of "[ascii ''Hello'', ascii ''World'', ascii ''Hello'']"]
  by (simp add: newSST_def addString_def getIndex_def ascii_def)

text \<open>
  Claim C3. On any table, a second \<open>addString s\<close> right after the first appends nothing
  to the ordered list, and the two calls raise \<open>totalCount\<close> by 2. On a table built from a
  fresh one, \<open>getIndex s\<close> is the 0-based position at which \<open>s\<close> was first inserted: where
  the call sequence is \<open>pre @ s # post\<close> with no \<open>s\<close> in \<open>pre\<close>, it is the length the list
  had after \<open>pre\<close>, and the list holds \<open>s\<close> at that position.
\<close>

theorem sst_idempotence_and_index:
  "strings (addString (addString sst s) s) = strings (addString sst s)
   \<and> length (strings (addString (addString sst s) s)) = length (strings (addString sst s))
   \<and> totalCount (addString (addString sst s) s) = totalCount sst + 2
   \<and> (s \<notin> set pre \<longrightarrow>
        getIndex (addStrings newSST (pre @ s # post)) s
          = int (length (strings (addStrings newSST pre)))
      \<and> strings (addStrings newSST (pre @ s # post))
          ! length (strings (addStrings newSST pre)) = s)"
proof -
  have twice: "strings (addString (addString sst s) s) = strings (addString sst s)
     \<and> totalCount (addString (addString sst s) s) = totalCount sst + 2"
    by (cases "stringMap sst s") (simp_all add: addString_def)
  have first: "getIndex (addStrings newSST (pre @ s # post)) s
        = int (length (strings (addStrings newSST pre)))
      \<and> strings (addStrings newSST (pre @ s # post))
        ! length (strings (addStrings newSST pre)) = s"
    if "s \<notin> set pre"
  proof -
    let ?st = "addStrings newSST pre"
    from that sst_reachable [of pre] have none: "stringMap ?st s = None"
      by (auto simp add: domIff)
    have "stringMap (addString ?st s) s = Some (int (length (strings ?st)))"
      using sst_reachable [of pre] by (simp add: addString_new [OF none])
    then have m: "stringMap (addStrings newSST (pre @ s # post)) s
        = Some (int (length (strings ?st)))"
      by (simp add: addStrings_append addStrings_keeps)
    from sst_index [OF m] m show ?thesis
      by (simp add: getIndex_def)
  qed
  show ?thesis using twice first by simp
qed

theorem sst_idempotence_and_index_witness:
  "ascii ''World'' \<notin> set [ascii ''Hello'']
   \<and> length (strings (addString (addString newSST (ascii ''World'')) (ascii ''World''))) = 1
   \<and> totalCount (addString (addString newSST (ascii ''World'')) (ascii ''World'')) = 2
   \<and> getIndex (addStrings newSST ([ascii ''Hello''] @ ascii ''World'' # [ascii ''Hello'']))
        (ascii ''World'') = 1
   \<and> strings (addStrings newSST ([ascii ''Hello''] @ ascii ''World'' # [ascii ''Hello'']))
        ! 1 = ascii ''World''"
  using sst_idempotence_and_index
    [of newSST "ascii ''World''" "[ascii ''Hello'']" "[ascii ''Hello'']"]
  by (simp add: newSST_def addString_def getIndex_def ascii_def)

section \<open>String encodings\<close>

lemma length_concat_replicate: "length (concat (replicate n xs)) = n * length xs"
  by (induction n) simp_all

lemma length_utf16Unit: "length (utf16Unit r) = (if 0xFFFF < r then 4 else 2)"
  by (simp add: utf16Unit_def not_less)

lemma length_concat_utf16Unit:
  "length (concat (map utf16Unit rs))
     = 2 * length rs + 2 * length (filter (\<lambda>r. 0xFFFF < r) rs)"
  by (induction rs) (simp_all add: length_utf16Unit)

lemma encodeStringForSST_eq:
  "encodeStringForSST s =
     Inr (PutUint16 (of_nat (length (runes s))) @ [0x01] @ concat (map utf16Unit (runes s)))"
  by (simp add: encodeStringForSST_def EncoderString_def)

lemma encodeString_eq:
  "encodeString s =
     Inr ([of_nat (length (runes s)), 0x01, 0x00] @ concat (map utf16Unit (runes s)))"
  by (simp add: encodeString_def EncoderString_def)

text \<open>A string of bytes below 0x80 has one code point per byte.\<close>

lemma runesFrom_ascii_replicate:
  "b < 0x80 \<Longrightarrow> runesFrom 0 (replicate n b) = replicate n (ucast b)"
  by (induction n) simp_all

lemma runes_ascii_replicate: "b < 0x80 \<Longrightarrow> runes (replicate n b) = replicate n (ucast b)"
  by (simp add: runes_def runesFrom_ascii_replicate)

lemma runesFrom_ascii:
  "list_all (\<lambda>b. b < 0x80) s \<Longrightarrow> runesFrom 0 s = map ucast s"
  by (induction s) simp_all

lemma runes_ascii: "list_all (\<lambda>b. b < 0x80) s \<Longrightarrow> runes s = map ucast s"
  by (simp add: runes_def runesFrom_ascii)

text \<open>The string of the one code point U+1F600, as UTF-8, and its surrogate pair.\<close>

lemma runes_U1F600: "runes [0xF0, 0x9F, 0x98, 0x80] = [0x1F600]"
  by code_simp

lemma utf16Unit_U1F600: "utf16Unit 0x1F600 = [0x3D, 0xD8, 0x00, 0xDE]"
  by code_simp

text \<open>
  Claim C9, as amended. \<open>stringToUTF16LE\<close>, which encodes sheet names (in
  \<open>writeBoundSheet\<close>) and directory names (in \<open>WriteCFB\<close>), emits exactly two bytes per code
  point, the code point cut to its low 16 bits. The strings of the SST (and
  \<open>encodeString\<close>) go through the UTF-16 encoder of golang.org/x/text instead, which emits
  two bytes for a code point up to U+FFFF and a four-byte surrogate pair for a larger one.
  The character count written before them is the number of code points cut to the width
  of its field: \<^verbatim>\<open>uint16(len([]rune(s)))\<close> in \<open>encodeStringForSST\<close>, that is the number
  modulo \<open>2^16\<close>, and \<^verbatim>\<open>byte(len([]rune(s)))\<close> in \<open>encodeString\<close>, that is the number modulo
  \<open>2^8\<close>; it is the number of code points itself for fewer than 65536, respectively 256,
  code points.
\<close>

theorem utf16_paths:
  "length (stringToUTF16LE s) = 2 * length (runes s)
   \<and> (\<forall>i. i < length (runes s) \<longrightarrow>
         Uint16 (drop (2 * i) (stringToUTF16LE s)) = ucast (runes s ! i))
   \<and> writeBoundSheet off s = writeRecord recTypeBOUNDSHEET
        (PutUint32 off @ [0, 0, of_nat (length (runes s)), 0x01] @ stringToUTF16LE s)
   \<and> encodeStringForSST s =
        Inr (PutUint16 (of_nat (length (runes s))) @ [0x01] @ concat (map utf16Unit (runes s)))
   \<and> encodeString s =
        Inr ([of_nat (length (runes s)), 0x01, 0x00] @ concat (map utf16Unit (runes s)))
   \<and> length (concat (map utf16Unit (runes s)))
        = 2 * length (runes s) + 2 * length (filter (\<lambda>r. 0xFFFF < r) (runes s))
   \<and> length (utf16Unit r) = (if 0xFFFF < r then 4 else 2)
   \<and> unat (Uint16 (projr (encodeStringForSST s))) = length (runes s) mod 65536
   \<and> (length (runes s) < 65536 \<longrightarrow>
         unat (Uint16 (projr (encodeStringForSST s))) = length (runes s))
   \<and> unat (hd (projr (encodeString s))) = length (runes s) mod 256
   \<and> (length (runes s) < 256 \<longrightarrow>
         unat (hd (projr (encodeString s))) = length (runes s))"
proof -
  have paths: "length (stringToUTF16LE s) = 2 * length (runes s)
     \<and> (\<forall>i. i < length (runes s) \<longrightarrow>
           Uint16 (drop (2 * i) (stringToUTF16LE s)) = ucast (runes s ! i))
     \<and> writeBoundSheet off s = writeRecord recTypeBOUNDSHEET
          (PutUint32 off @ [0, 0, of_nat (length (runes s)), 0x01] @ stringToUTF16LE s)"
    by (simp add: stringToUTF16LE_def length_concat_PutUint16 Uint16_drop_concat
        writeBoundSheet_def)
  have sst: "unat (Uint16 (projr (encodeStringForSST s))) = length (runes s) mod 65536"
    by (simp add: encodeStringForSST_eq unat_of_nat)
  have str: "unat (hd (projr (encodeString s))) = length (runes s) mod 256"
    by (simp add: encodeString_eq unat_of_nat)
  from paths sst str show ?thesis
    by (simp add: encodeStringForSST_eq encodeString_eq length_concat_utf16Unit
        length_utf16Unit)
qed

theorem utf16_paths_witness:
  "(0::nat) < length (runes [0xF0, 0x9F, 0x98, 0x80])
   \<and> length (runes [0xF0, 0x9F, 0x98, 0x80]) < 256
   \<and> length (runes [0xF0, 0x9F, 0x98, 0x80]) < 65536
   \<and> length (stringToUTF16LE [0xF0, 0x9F, 0x98, 0x80]) = 2
   \<and> Uint16 (drop (2 * 0) (stringToUTF16LE [0xF0, 0x9F, 0x98, 0x80])) = 0xF600
   \<and> length (concat (map utf16Unit (runes [0xF0, 0x9F, 0x98, 0x80]))) = 4
   \<and> unat (Uint16 (projr (encodeStringForSST [0xF0, 0x9F, 0x98, 0x80]))) = 1
   \<and> unat (hd (projr (encodeString [0xF0, 0x9F, 0x98, 0x80]))) = 1"
  using utf16_paths [of "[0xF0, 0x9F, 0x98, 0x80]"]
  by (simp add: runes_U1F600)

text \<open>
  The count does wrap on strings a caller can pass: for 65536 letters \<open>encodeStringForSST\<close>
  writes the count 0, and for 256 letters \<open>encodeString\<close> writes the count 0; either is
  followed by the flag and by two bytes for every letter.
\<close>

lemma encodeStringForSST_ascii_replicate:
  "b < 0x80 \<Longrightarrow> encodeStringForSST (replicate n b)
     = Inr (PutUint16 (of_nat n) @ [0x01] @ concat (replicate n (utf16Unit (ucast b))))"
  by (simp add: encodeStringForSST_eq runes_ascii_replicate)

lemma encodeString_ascii_replicate:
  "b < 0x80 \<Longrightarrow> encodeString (replicate n b)
     = Inr ([of_nat n, 0x01, 0x00] @ concat (replicate n (utf16Unit (ucast b))))"
  by (simp add: encodeString_eq runes_ascii_replicate)

lemma encodeStringForSST_count_wraps:
  "length (runes (replicate 65536 0x41)) = 65536
   \<and> take 3 (projr (encodeStringForSST (replicate 65536 0x41))) = [0, 0, 1]
   \<and> length (projr (encodeStringForSST (replicate 65536 0x41))) = 3 + 2 * 65536"
  using encodeStringForSST_ascii_replicate [of "0x41" 65536]
  by (simp add: runes_ascii_replicate PutUint16_def length_concat_replicate length_utf16Unit)

lemma encodeString_count_wraps:
  "length (runes (replicate 256 0x41)) = 256
   \<and> take 3 (projr (encodeString (replicate 256 0x41))) = [0, 1, 0]
   \<and> length (projr (encodeString (replicate 256 0x41))) = 3 + 2 * 256"
  using encodeString_ascii_replicate [of "0x41" 256]
  by (simp add: runes_ascii_replicate length_concat_replicate length_utf16Unit)

text \<open>
  Claim C9 as stated fails on the SST path: for the one code point U+1F600 the SST encoding
  holds the count 1, the flag, and the four bytes 3D D8 00 DE of the surrogate pair
  D83D DE00, while \<open>stringToUTF16LE\<close> gives the two bytes 00 F6.
\<close>

theorem utf16_sst_counterexample:
  "runes [0xF0, 0x9F, 0x98, 0x80] = [0x1F600]
   \<and> encodeStringForSST [0xF0, 0x9F, 0x98, 0x80] = Inr [1, 0, 1, 0x3D, 0xD8, 0x00, 0xDE]
   \<and> stringToUTF16LE [0xF0, 0x9F, 0x98, 0x80] = [0x00, 0xF6]"
  by (simp add: encodeStringForSST_eq runes_U1F600 utf16Unit_U1F600 PutUint16_def
      stringToUTF16LE_def)

section \<open>Cells and rows\<close>

lemma sstOfCells_eq: "sstOfCells sst row = addStrings sst (stringCells row)"
  by (induction sst row rule: sstOfCells.induct) simp_all

lemma sstOfRows_eq: "sstOfRows sst d = addStrings sst (tableStrings d)"
  by (induction d arbitrary: sst)
    (simp_all add: tableStrings_def sstOfCells_eq addStrings_append)

lemma writeLabelSST_eq:
  "writeLabelSST row col v sst = writeRecord recTypeLABELSST
     (PutUint16 row @ PutUint16 col @ PutUint16 0 @ PutUint32 (of_int (getIndex sst v)))"
  by (simp add: writeLabelSST_def)

text \<open>
  Claim C7, as amended. A cell of any other dynamic type is emitted as a LABELSST record
  whose SST index field is \<open>getIndex\<close> of its formatted text. The table built by the
  pre-walk holds the texts of the string-typed cells only, so the formatted text is never
  added; the index written is 0 when no string-typed cell of the table has that text, and
  otherwise the index of the string-typed cells with that text.
\<close>

theorem other_cell_label:
  "writeCell row col (CellOther formatted) sst = writeRecord recTypeLABELSST
     (PutUint16 row @ PutUint16 col @ PutUint16 0 @ PutUint32 (of_int (getIndex sst formatted)))
   \<and> set (strings (sstOfRows newSST d)) = set (tableStrings d)
   \<and> (formatted \<notin> set (tableStrings d) \<longrightarrow> getIndex (sstOfRows newSST d) formatted = 0)
   \<and> (formatted \<in> set (tableStrings d) \<longrightarrow>
        0 \<le> getIndex (sstOfRows newSST d) formatted
      \<and> nat (getIndex (sstOfRows newSST d) formatted) < length (strings (sstOfRows newSST d))
      \<and> strings (sstOfRows newSST d) ! nat (getIndex (sstOfRows newSST d) formatted)
          = formatted)"
proof -
  let ?st = "addStrings newSST (tableStrings d)"
  note r = sst_reachable [of "tableStrings d"]
  have absent: "getIndex ?st formatted = 0" if "formatted \<notin> set (tableStrings d)"
  proof -
    from that r have "stringMap ?st formatted = None" by (auto simp add: domIff)
    then show ?thesis by (simp add: getIndex_def)
  qed
  have present: "0 \<le> getIndex ?st formatted
      \<and> nat (getIndex ?st formatted) < length (strings ?st)
      \<and> strings ?st ! nat (getIndex ?st formatted) = formatted"
    if "formatted \<in> set (tableStrings d)"
  proof -
    from that r have "formatted \<in> dom (stringMap ?st)" by blast
    then obtain i where i: "stringMap ?st formatted = Some i" by blast
    from sst_index [OF i] i show ?thesis by (simp add: getIndex_def)
  qed
  show ?thesis
    using r absent present by (simp add: sstOfRows_eq writeLabelSST_eq)
qed

theorem other_cell_label_witness:
  "ascii ''<nil>'' \<notin> set (tableStrings [[CellString (ascii ''a''), CellOther (ascii ''<nil>'')]])
   \<and> ascii ''a'' \<in> set (tableStrings [[CellString (ascii ''a''), CellOther (ascii ''<nil>'')]])
   \<and> strings (sstOfRows newSST [[CellString (ascii ''a''), CellOther (ascii ''<nil>'')]])
       = [ascii ''a'']
   \<and> getIndex (sstOfRows newSST [[CellString (ascii ''a''), CellOther (ascii ''<nil>'')]])
       (ascii ''<nil>'') = 0
   \<and> getIndex (sstOfRows newSST [[CellString (ascii ''a''), CellOther (ascii ''<nil>'')]])
       (ascii ''a'') = 0"
  using other_cell_label [of 0 1 "ascii ''<nil>''" newSST
      "[[CellString (ascii ''a''), CellOther (ascii ''<nil>'')]]"]
    other_cell_label [of 0 1 "ascii ''a''" newSST
      "[[CellString (ascii ''a''), CellOther (ascii ''<nil>'')]]"]
  by (simp add: tableStrings_def newSST_def addString_def getIndex_def ascii_def)

text \<open>
  Claim C7 as stated fails where the formatted text equals a string-typed cell that is not
  the first entry of the SST. In the row \<^verbatim>\<open>{"a", "<nil>", nil}\<close> the third cell is a nil
  interface value, formatted \<^verbatim>\<open><nil>\<close>; the index field of its LABELSST record (bytes 10
  to 13 of the record) is 1, the index of the second cell.
\<close>

theorem other_cell_index_counterexample:
  "Uint32 (drop 10 (writeCell 0 2 (CellOther (ascii ''<nil>''))
      (sstOfRows newSST [[CellString (ascii ''a''), CellString (ascii ''<nil>''),
         CellOther (ascii ''<nil>'')]]))) = 1"
  by (simp add: writeLabelSST_eq writeRecord_eq sstOfRows_eq tableStrings_def
      newSST_def addString_def getIndex_def ascii_def)

lemma writeCells_eq:
  "writeCells k row cs sst =
     concat (map (\<lambda>j. writeCell row (of_nat (k + j)) (cs ! j) sst) [0..<length cs])"
proof (induction cs arbitrary: k)
  case Nil
  show ?case by simp
next
  case (Cons c cs)
  show ?case
    by (simp add: Cons.IH map_upt_Suc ac_simps del: upt_Suc)
qed

lemma writeRows_eq:
  "writeRows k rows sst =
     concat (map (\<lambda>i. writeRow (of_nat (k + i)) (of_nat (length (rows ! i)))
                      @ writeCells 0 (of_nat (k + i)) (rows ! i) sst) [0..<length rows])"
proof (induction rows arbitrary: k)
  case Nil
  show ?case by simp
next
  case (Cons r rows)
  show ?case
    by (simp add: Cons.IH map_upt_Suc ac_simps del: upt_Suc)
qed

lemma row_field_writeRow: "Uint16 (drop 4 (writeRow r n)) = r"
  by (simp add: writeRow_def writeRecord_eq)

lemma row_field_writeCell: "Uint16 (drop 4 (writeCell r c v sst)) = r"
  by (cases v) (simp_all add: writeLabelSST_def writeNumber_def writeBool_def writeRecord_eq)

lemma col_field_writeCell: "Uint16 (drop 6 (writeCell r c v sst)) = c"
  by (cases v) (simp_all add: writeLabelSST_def writeNumber_def writeBool_def writeRecord_eq)

lemma rows_field_writeDimensions:
  "Uint32 (drop 8 (writeDimensions w)) = of_nat (length (data w))"
  by (simp add: writeDimensions_def writeRecord_eq)

text \<open>
  Claim C10, as amended. \<open>writeRowsAndCells\<close> writes, for each row index \<open>i\<close> in order, a
  ROW record and then one cell record per column index \<open>j\<close>, with \<open>i\<close> and \<open>j\<close> cast to
  \<^verbatim>\<open>uint16\<close>: the row field of a ROW or cell record (bytes 4 and 5) holds \<open>i mod 2^16\<close>, the
  column field of a cell record (bytes 6 and 7) holds \<open>j mod 2^16\<close>. The row count of
  DIMENSIONS (bytes 8 to 11) is the number of rows cast to \<^verbatim>\<open>uint32\<close>, that is modulo
  \<open>2^32\<close>. So in a table of more than 65536 and fewer than \<open>2^32\<close> rows the row of index
  65536 is stored as 0, while DIMENSIONS holds the full row count.
\<close>

theorem row_and_column_fields:
  "writeRowsAndCells w sst =
     concat (map (\<lambda>i. writeRow (of_nat i) (of_nat (length (data w ! i)))
        @ concat (map (\<lambda>j. writeCell (of_nat i) (of_nat j) (data w ! i ! j) sst)
            [0..<length (data w ! i)]))
       [0..<length (data w)])
   \<and> unat (Uint16 (drop 4 (writeRow (of_nat i) n))) = i mod 2 ^ 16
   \<and> unat (Uint16 (drop 4 (writeCell (of_nat i) (of_nat j) c sst))) = i mod 2 ^ 16
   \<and> unat (Uint16 (drop 6 (writeCell (of_nat i) (of_nat j) c sst))) = j mod 2 ^ 16
   \<and> unat (Uint32 (drop 8 (writeDimensions w))) = length (data w) mod 2 ^ 32
   \<and> (65536 < length (data w) \<and> length (data w) < 2 ^ 32 \<longrightarrow>
        unat (Uint16 (drop 4 (writeRow (of_nat 65536) n))) = 0
      \<and> unat (Uint32 (drop 8 (writeDimensions w))) = length (data w))"
  by (simp add: writeRowsAndCells_def writeRows_eq writeCells_eq row_field_writeRow
      row_field_writeCell col_field_writeCell rows_field_writeDimensions unat_of_nat)

theorem row_and_column_fields_witness:
  "65536 < length (data \<lparr>data = replicate 65537 [], sheetName = ascii ''Sheet1''\<rparr>)
   \<and> length (data \<lparr>data = replicate 65537 [], sheetName = ascii ''Sheet1''\<rparr>) < 2 ^ 32
   \<and> unat (Uint16 (drop 4 (writeRow (of_nat 65536) 0))) = 0
   \<and> unat (Uint32 (drop 8 (writeDimensions
        \<lparr>data = replicate 65537 [], sheetName = ascii ''Sheet1''\<rparr>))) = 65537"
proof -
  have h: "65536 < length (data \<lparr>data = replicate 65537 [], sheetName = ascii ''Sheet1''\<rparr>)
     \<and> length (data \<lparr>data = replicate 65537 [], sheetName = ascii ''Sheet1''\<rparr>) < 2 ^ 32"
    by simp
  note t = row_and_column_fields [of "\<lparr>data = replicate 65537 [], sheetName = ascii ''Sheet1''\<rparr>"
      newSST 0 0 0 "CellBool True"]
  from t [THEN conjunct2, THEN conjunct2, THEN conjunct2, THEN conjunct2, THEN conjunct2,
      THEN mp, OF h] h
  show ?thesis by simp
qed

text \<open>
  Claim C10 as stated fails at both ends of its last sentence. In a table of exactly 65536
  rows no row index wraps: the last row, of index 65535, is stored as 65535. In a table of
  \<open>2^32\<close> rows the row count of DIMENSIONS wraps as well, to 0.
\<close>

theorem row_wrap_counterexample:
  "length (replicate 65536 ([] :: cell list)) = 65536
   \<and> unat (Uint16 (drop 4 (writeRow (of_nat (65536 - 1)) 0))) = 65536 - 1
   \<and> length (replicate (2 ^ 32) ([] :: cell list)) = 2 ^ 32
   \<and> unat (Uint32 (drop 8 (writeDimensions
        \<lparr>data = replicate (2 ^ 32) [], sheetName = ascii ''Sheet1''\<rparr>))) = 0"
  by (simp add: row_field_writeRow rows_field_writeDimensions unat_of_nat)

section \<open>The layout of the BIFF8 stream\<close>

lemma appendSSTStrings_eq:
  "appendSSTStrings payload strs =
     Inr (payload @ concat (map (\<lambda>s. PutUint16 (of_nat (length (runes s))) @ [0x01]
                                    @ concat (map utf16Unit (runes s))) strs))"
  by (induction strs arbitrary: payload)
    (simp_all add: encodeStringForSST_def EncoderString_def)

lemma writeSST_eq:
  "writeSST sst = Inr (writeRecord recTypeSST
     (PutUint32 (of_int (totalCount sst)) @ PutUint32 (of_int (uniqueCount sst))
      @ concat (map (\<lambda>s. PutUint16 (of_nat (length (runes s))) @ [0x01]
                         @ concat (map utf16Unit (runes s))) (strings sst))))"
  by (simp add: writeSST_def appendSSTStrings_eq)

lemma length_writeBoundSheet [simp]:
  "length (writeBoundSheet off name) = 12 + length (stringToUTF16LE name)"
  by (simp add: writeBoundSheet_def)

lemma length_writeEOF [simp]: "length writeEOF = 4"
  by (simp add: writeEOF_def)

lemma length_writeBOF [simp]: "length (writeBOF t) = 20"
  by (simp add: writeBOF_def)

lemma writeBIFF8_eq:
  assumes "writeSST (sstOfRows newSST (data w)) = Inr sstBuf"
  shows "writeBIFF8 w buf = Inr (buf @ workbookGlobals @ sstBuf
      @ writeBoundSheet (of_nat (length buf + length workbookGlobals + length sstBuf
           + (12 + length (stringToUTF16LE (sheetName w))) + 4)) (sheetName w)
      @ writeEOF @ worksheetHead w @ writeRowsAndCells w (sstOfRows newSST (data w))
      @ writeWindow2 @ writeEOF)"
  using assms by (simp add: writeBIFF8_def Let_def ac_simps)

lemma worksheetHead_BOF:
  "\<exists>rest. worksheetHead w = writeBOF bofWorksheet @ rest"
  by (simp add: worksheetHead_def)

lemmas fixed_record_defs =
  writeBOF_def writeInterfaceHdr_def writeMMS_def writeInterfaceEnd_def
  writeWriteAccess_def writeCodePage_def writeDSF_def writeFnGroupCount_def writeUnknown9C_def
  writeWindowProtect_def writeProtect_def writeObjProtect_def writePassword_def writeProt4Rev_def
  writePasswordRev4_def writeBackup_def writeHideObj_def writeWindow1_def writeDateMode_def
  writePrecision_def writeRefreshAll_def writeBookBool_def writeDefaultFont_def writeFormat_def
  writeXF_def writeDefaultStyle_def writeUseSelfs_def writeEOF_def
  writeCalcMode_def writeCalcCount_def writeRefMode_def writeIteration_def writeDelta_def
  writeSaveRecalc_def writeGuts_def writeDefaultRowHeight_def writeWSBool_def
  writePrintHeaders_def writePrintGridlines_def writeGridSet_def writeHBreak_def writeVBreak_def
  writeHeader_def writeFooter_def writeHCenter_def writeVCenter_def
  writeLeftMargin_def writeRightMargin_def writeTopMargin_def writeBottomMargin_def writeSetup_def
  writeScenProtect_def writeWindow2_def

lemma length_workbookGlobals: "length workbookGlobals = 907"
  by (simp add: workbookGlobals_def fixed_record_defs length_concat_replicate)

lemma length_runes_Sheet1: "length (runes (ascii ''Sheet1'')) = 6"
  by (subst runes_ascii) (simp_all add: ascii_def)

text \<open>
  Claim C1, as amended. For every table and sheet name, \<open>writeBIFF8\<close> on a new buffer
  succeeds, and its stream is the workbook globals written so far, the SST record, the
  BOUNDSHEET record, the EOF record of the globals and then the worksheet, which starts with
  its BOF record. The position of that BOF record is the sum of the bytes of the globals
  already written, the length of the serialised SST, the length of the BOUNDSHEET record
  with its header (\<open>4 + 6 + 1 + len nameBytes + 1\<close>) and 4 for the EOF record. The offset
  field of BOUNDSHEET (the first four bytes after the record header) holds this position
  cast to \<^verbatim>\<open>uint32\<close>, that is modulo \<open>2^32\<close>: it equals the position whenever the position
  is below \<open>2^32\<close>.
\<close>

theorem boundsheet_offset:
  "\<exists>sstBuf off rest.
      writeSST (sstOfRows newSST (data w)) = Inr sstBuf
    \<and> writeBIFF8 w [] = Inr (workbookGlobals @ sstBuf @ writeBoundSheet off (sheetName w)
          @ writeEOF @ writeBOF bofWorksheet @ rest)
    \<and> Uint32 (drop 4 (writeBoundSheet off (sheetName w))) = off
    \<and> length (writeBoundSheet off (sheetName w))
          = 4 + 6 + 1 + length (stringToUTF16LE (sheetName w)) + 1
    \<and> length (workbookGlobals @ sstBuf @ writeBoundSheet off (sheetName w) @ writeEOF)
          = length workbookGlobals + length sstBuf
            + length (writeBoundSheet off (sheetName w)) + 4
    \<and> unat off = length (workbookGlobals @ sstBuf @ writeBoundSheet off (sheetName w) @ writeEOF)
          mod 2 ^ 32
    \<and> (length (workbookGlobals @ sstBuf @ writeBoundSheet off (sheetName w) @ writeEOF) < 2 ^ 32
         \<longrightarrow> unat off
           = length (workbookGlobals @ sstBuf @ writeBoundSheet off (sheetName w) @ writeEOF))"
proof -
  obtain sstBuf where s: "writeSST (sstOfRows newSST (data w)) = Inr sstBuf"
    using writeSST_eq by blast
  obtain rest where r: "worksheetHead w = writeBOF bofWorksheet @ rest"
    using worksheetHead_BOF by blast
  define pos where "pos = length workbookGlobals + length sstBuf
           + (12 + length (stringToUTF16LE (sheetName w))) + 4"
  define off :: "32 word" where "off = of_nat pos"
  have stream: "writeBIFF8 w [] = Inr (workbookGlobals @ sstBuf @ writeBoundSheet off (sheetName w)
          @ writeEOF @ writeBOF bofWorksheet
          @ (rest @ writeRowsAndCells w (sstOfRows newSST (data w)) @ writeWindow2 @ writeEOF))"
    using writeBIFF8_eq [OF s, of "[]"] by (simp add: off_def pos_def r)
  let ?L = "length (workbookGlobals @ sstBuf @ writeBoundSheet off (sheetName w) @ writeEOF)"
  have len: "?L = pos"
    by (simp add: pos_def)
  have c2: "Uint32 (drop 4 (writeBoundSheet off (sheetName w))) = off"
    by (simp add: writeBoundSheet_def writeRecord_eq Let_def)
  have c3: "length (writeBoundSheet off (sheetName w))
      = 4 + 6 + 1 + length (stringToUTF16LE (sheetName w)) + 1"
    by simp
  have c4: "?L = length workbookGlobals + length sstBuf
      + length (writeBoundSheet off (sheetName w)) + 4"
    by simp
  have c5: "unat off = ?L mod 2 ^ 32"
    unfolding len by (simp add: off_def unat_of_nat)
  have c6: "?L < 2 ^ 32 \<longrightarrow> unat off = ?L"
    unfolding c5 by simp
  from s stream c2 c3 c4 c5 c6 show ?thesis
    by blast
qed

theorem boundsheet_offset_witness:
  "\<exists>sstBuf off rest.
      writeBIFF8 New [] = Inr (workbookGlobals @ sstBuf @ writeBoundSheet off (sheetName New)
          @ writeEOF @ writeBOF bofWorksheet @ rest)
    \<and> length (workbookGlobals @ sstBuf @ writeBoundSheet off (sheetName New) @ writeEOF) = 947
    \<and> (947 :: nat) < 2 ^ 32
    \<and> unat off = 947"
proof -
  from boundsheet_offset [of New] obtain sstBuf off rest where
    s: "writeSST (sstOfRows newSST (data New)) = Inr sstBuf"
    and stream: "writeBIFF8 New [] = Inr (workbookGlobals @ sstBuf
          @ writeBoundSheet off (sheetName New) @ writeEOF @ writeBOF bofWorksheet @ rest)"
    and imp: "length (workbookGlobals @ sstBuf @ writeBoundSheet off (sheetName New) @ writeEOF)
          < 2 ^ 32 \<longrightarrow> unat off
           = length (workbookGlobals @ sstBuf @ writeBoundSheet off (sheetName New) @ writeEOF)"
    by blast
  from s have "length sstBuf = 12"
    by (auto simp add: writeSST_eq New_def newSST_def)
  then have len: "length (workbookGlobals @ sstBuf @ writeBoundSheet off (sheetName New) @ writeEOF)
      = 947"
    by (simp add: length_workbookGlobals New_def stringToUTF16LE_def length_concat_PutUint16
        length_runes_Sheet1)
  with imp have "unat off = 947" by simp
  with stream len show ?thesis by fastforce
qed

lemma sst_record_huge:
  "writeSST (sstOfRows newSST [[CellString (replicate n 0x41)]])
     = Inr (writeRecord recTypeSST (PutUint32 1 @ PutUint32 1 @ PutUint16 (of_nat n) @ [0x01]
              @ concat (map utf16Unit (replicate n 0x41))))"
  by (simp add: writeSST_eq newSST_def addString_def runes_ascii_replicate)

lemma layout_one_long_string:
  "\<exists>S tail. length S = 15 + 2 * n
     \<and> writeBIFF8 \<lparr>data = [[CellString (replicate n 0x41)]], sheetName = ascii ''Sheet1''\<rparr> []
         = Inr (workbookGlobals @ S
             @ writeBoundSheet (of_nat (950 + 2 * n)) (ascii ''Sheet1'')
             @ writeEOF @ writeBOF bofWorksheet @ tail)"
proof -
  let ?w = "\<lparr>data = [[CellString (replicate n 0x41)]], sheetName = ascii ''Sheet1''\<rparr>"
  define S where "S = writeRecord recTypeSST (PutUint32 1 @ PutUint32 1
      @ PutUint16 (of_nat n) @ [0x01] @ concat (map utf16Unit (replicate n 0x41)))"
  have lenS: "length S = 15 + 2 * n"
    by (simp add: S_def length_concat_replicate length_utf16Unit)
  have s: "writeSST (sstOfRows newSST (data ?w)) = Inr S"
    using sst_record_huge [of n] by (simp add: S_def)
  obtain rest where r: "worksheetHead ?w = writeBOF bofWorksheet @ rest"
    using worksheetHead_BOF by blast
  have "writeBIFF8 ?w [] = Inr (workbookGlobals @ S
      @ writeBoundSheet (of_nat (950 + 2 * n)) (ascii ''Sheet1'') @ writeEOF
      @ writeBOF bofWorksheet
      @ (rest @ writeRowsAndCells ?w (sstOfRows newSST (data ?w)) @ writeWindow2 @ writeEOF))"
    unfolding writeBIFF8_eq [OF s, of "[]"]
    by (simp add: r lenS length_workbookGlobals stringToUTF16LE_def length_concat_PutUint16
        length_runes_Sheet1)
  with lenS show ?thesis by blast
qed

text \<open>
  Claim C1 as stated fails once the worksheet starts at or beyond 4 GiB. For a table of one
  text cell of \<open>2^31\<close> letters \<^verbatim>\<open>A\<close>, the SST record takes \<open>2^32 + 15\<close> bytes after the
  907 bytes of globals; the BOUNDSHEET record that follows has the offset field 950, and
  the BOF record of the worksheet stands at position \<open>2^32 + 950\<close>.
\<close>

theorem boundsheet_offset_counterexample:
  "writeBIFF8 \<lparr>data = [[CellString (replicate (2 ^ 31) 0x41)]], sheetName = ascii ''Sheet1''\<rparr> []
     = Inr (projr (writeBIFF8
         \<lparr>data = [[CellString (replicate (2 ^ 31) 0x41)]], sheetName = ascii ''Sheet1''\<rparr> []))
   \<and> take 4 (drop (907 + (2 ^ 32 + 15)) (projr (writeBIFF8
         \<lparr>data = [[CellString (replicate (2 ^ 31) 0x41)]], sheetName = ascii ''Sheet1''\<rparr> [])))
       = PutUint16 recTypeBOUNDSHEET @ PutUint16 20
   \<and> Uint32 (drop (907 + (2 ^ 32 + 15) + 4) (projr (writeBIFF8
         \<lparr>data = [[CellString (replicate (2 ^ 31) 0x41)]], sheetName = ascii ''Sheet1''\<rparr> [])))
       = 950
   \<and> take 20 (drop (2 ^ 32 + 950) (projr (writeBIFF8
         \<lparr>data = [[CellString (replicate (2 ^ 31) 0x41)]], sheetName = ascii ''Sheet1''\<rparr> [])))
       = writeBOF bofWorksheet"
proof -
  from layout_one_long_string [of "2 ^ 31"] obtain S tail where lenS: "length S = 15 + 2 * 2 ^ 31"
    and stream: "writeBIFF8
         \<lparr>data = [[CellString (replicate (2 ^ 31) 0x41)]], sheetName = ascii ''Sheet1''\<rparr> []
       = Inr (workbookGlobals @ S
             @ writeBoundSheet (of_nat (950 + 2 * 2 ^ 31)) (ascii ''Sheet1'')
             @ writeEOF @ writeBOF bofWorksheet @ tail)"
    by blast
  have off: "(of_nat (950 + 2 * 2 ^ 31) :: 32 word) = 950"
    by simp
  have bs: "writeBoundSheet 950 (ascii ''Sheet1'')
      = PutUint16 recTypeBOUNDSHEET @ PutUint16 20 @ PutUint32 950
        @ [0, 0, 6, 1] @ stringToUTF16LE (ascii ''Sheet1'')"
    by (simp add: writeBoundSheet_def writeRecord_eq stringToUTF16LE_def length_concat_PutUint16
        length_runes_Sheet1)
  have lenName: "length (stringToUTF16LE (ascii ''Sheet1'')) = 12"
    by (simp add: stringToUTF16LE_def length_concat_PutUint16 length_runes_Sheet1)
  have d1: "drop (907 + (2 ^ 32 + 15)) (workbookGlobals @ S
      @ writeBoundSheet 950 (ascii ''Sheet1'') @ writeEOF @ writeBOF bofWorksheet @ tail)
      = writeBoundSheet 950 (ascii ''Sheet1'') @ writeEOF @ writeBOF bofWorksheet @ tail"
    by (simp add: length_workbookGlobals lenS lenName)
  have d2: "drop (907 + (2 ^ 32 + 15) + 4) (workbookGlobals @ S
      @ writeBoundSheet 950 (ascii ''Sheet1'') @ writeEOF @ writeBOF bofWorksheet @ tail)
      = PutUint32 950 @ [0, 0, 6, 1] @ stringToUTF16LE (ascii ''Sheet1'')
        @ writeEOF @ writeBOF bofWorksheet @ tail"
    by (simp add: length_workbookGlobals lenS lenName bs)
  have d3: "drop (2 ^ 32 + 950) (workbookGlobals @ S
      @ writeBoundSheet 950 (ascii ''Sheet1'') @ writeEOF @ writeBOF bofWorksheet @ tail)
      = writeBOF bofWorksheet @ tail"
    by (simp add: length_workbookGlobals lenS lenName)
  show ?thesis
    unfolding stream off sum.sel d1 d2 d3
    by (simp add: bs)
qed

section \<open>The stream of the empty table\<close>

lemmas record_type_defs =
  recTypeBOF_def recTypeEOF_def recTypeDIMENSIONS_def recTypeROW_def recTypeLABEL_def
  recTypeNUMBER_def recTypeBOOLERR_def recTypeSST_def recTypeLABELSST_def recTypeCODEPAGE_def
  recTypeFONT_def recTypeFORMAT_def recTypeXF_def recTypeSTYLE_def recTypeBOUNDSHEET_def
  recTypeWINDOW1_def recTypeWINDOW2_def recTypeDEFAULTROWHEIGHT_def recTypeWSBOOL_def
  recTypeBOOKBOOL_def recTypeINTERFACEHDR_def recTypeMMS_def recTypeINTERFACEEND_def
  recTypeWRITEACCESS_def recTypeDATEMODE_def recTypePRECISION_def recTypeREFRESHALL_def
  recTypeCALCMODE_def recTypeCALCCOUNT_def recTypeREFMODE_def recTypeITERATION_def
  recTypeDELTA_def recTypeSAVERECALC_def recTypePRINTHEADERS_def recTypePRINTGRIDLINES_def
  recTypePROTECT_def recTypePASSWORD_def recTypeBACKUP_def recTypeHIDEOBJ_def
  recTypeWINDOWPROTECT_def recTypeDSF_def recTypePROT4REV_def recTypePASSWORDREV4_def
  recTypeFNGROUPCOUNT_def recTypeUSESELFS_def recTypeUNKNOWN9C_def recTypeLEFTMARGIN_def
  recTypeRIGHTMARGIN_def recTypeTOPMARGIN_def recTypeBOTTOMMARGIN_def recTypeHCENTER_def
  recTypeVCENTER_def recTypeSETUP_def recTypeGRIDSET_def recTypeGUTS_def recTypeOBJPROTECT_def
  recTypeSCENPROTECT_def recTypeHBREAK_def recTypeVBREAK_def recTypeHEADER_def
  recTypeFOOTER_def

lemma writeRecords_Nil [simp]: "writeRecords [] = []"
  by (simp add: writeRecords_def)

lemma writeRecords_Cons [simp]: "writeRecords ((t, p) # recs) = writeRecord t p @ writeRecords recs"
  by (simp add: writeRecords_def)

lemma writeRecords_append [simp]: "writeRecords (a @ b) = writeRecords a @ writeRecords b"
  by (simp add: writeRecords_def)

lemma parseRecords_writeRecord:
  assumes "length p < 65536"
  shows "parseRecords (writeRecord t p @ rest) =
     (case parseRecords rest of None \<Rightarrow> None | Some recs \<Rightarrow> Some ((t, p) # recs))"
proof -
  obtain t0 t1 where t: "PutUint16 t = [t0, t1]" by (simp add: PutUint16_def)
  obtain l0 l1 where l: "PutUint16 (of_nat (length p)) = [l0, l1]" by (simp add: PutUint16_def)
  have tt: "Uint16 [t0, t1] = t" using Uint16_PutUint16_only [of t] by (simp add: t)
  have "Uint16 [l0, l1] = of_nat (length p)"
    using Uint16_PutUint16_only [of "of_nat (length p)"] by (simp add: l)
  then have ll: "unat (Uint16 [l0, l1]) = length p"
    using assms by (simp add: unat_of_nat)
  have eq: "writeRecord t p @ rest = t0 # t1 # l0 # l1 # (p @ rest)"
    by (simp add: writeRecord_eq t l)
  show ?thesis
    unfolding eq by (simp add: tt ll split: option.splits)
qed

lemma parseRecords_writeRecords:
  "list_all (\<lambda>(t, p). length p < 65536) recs \<Longrightarrow> parseRecords (writeRecords recs) = Some recs"
  by (induction recs) (auto simp add: parseRecords_writeRecord)

lemma records_single:
  "P (t, p) \<Longrightarrow> \<exists>recs. writeRecord t p = writeRecords recs \<and> list_all P recs"
  by (rule exI [of _ "[(t, p)]"]) simp

lemma records_append:
  assumes "\<exists>recs. a = writeRecords recs \<and> list_all P recs"
    and "\<exists>recs. b = writeRecords recs \<and> list_all P recs"
  shows "\<exists>recs. a @ b = writeRecords recs \<and> list_all P recs"
proof -
  from assms obtain ra rb where "a = writeRecords ra" "list_all P ra"
    "b = writeRecords rb" "list_all P rb" by blast
  then have "a @ b = writeRecords (ra @ rb) \<and> list_all P (ra @ rb)" by simp
  then show ?thesis by blast
qed

lemma records_replicate:
  assumes "\<exists>recs. a = writeRecords recs \<and> list_all P recs"
  shows "\<exists>recs. concat (replicate n a) = writeRecords recs \<and> list_all P recs"
proof (induction n)
  case 0
  show ?case by (rule exI [of _ "[]"]) simp
next
  case (Suc n)
  from records_append [OF assms Suc] show ?case by simp
qed

lemma workbookGlobals_records:
  "\<exists>recs. workbookGlobals = writeRecords recs \<and> list_all plain recs"
  unfolding workbookGlobals_def fixed_record_defs Let_def if_True if_False
  by (intro records_append records_replicate records_single)
    (simp_all add: plain_def record_type_defs)


lemma worksheetHead_records:
  "\<exists>ra rb. worksheetHead w = writeRecords ra @ writeDimensions w @ writeRecords rb
     \<and> list_all plain ra \<and> list_all plain rb"
proof -
  have "\<exists>recs. writeBOF bofWorksheet
     @ writeCalcMode @ writeCalcCount @ writeRefMode @ writeIteration @ writeDelta
     @ writeSaveRecalc
     @ writeGuts @ writeDefaultRowHeight @ writeWSBool = writeRecords recs \<and> list_all plain recs"
    unfolding fixed_record_defs
    by (intro records_append records_single) (simp_all add: plain_def record_type_defs)
  then obtain ra where ra: "writeBOF bofWorksheet
     @ writeCalcMode @ writeCalcCount @ writeRefMode @ writeIteration @ writeDelta
     @ writeSaveRecalc
     @ writeGuts @ writeDefaultRowHeight @ writeWSBool = writeRecords ra" "list_all plain ra"
    by blast
  have "\<exists>recs. writePrintHeaders @ writePrintGridlines @ writeGridSet @ writeHBreak @ writeVBreak
     @ writeHeader @ writeFooter @ writeHCenter @ writeVCenter
     @ writeLeftMargin @ writeRightMargin @ writeTopMargin @ writeBottomMargin @ writeSetup
     @ writeProtect @ writeScenProtect @ writeWindowProtect @ writeObjProtect @ writePassword
     = writeRecords recs \<and> list_all plain recs"
    unfolding fixed_record_defs
    by (intro records_append records_single) (simp_all add: plain_def record_type_defs)
  then obtain rb where rb: "writePrintHeaders @ writePrintGridlines @ writeGridSet @ writeHBreak @ writeVBreak
     @ writeHeader @ writeFooter @ writeHCenter @ writeVCenter
     @ writeLeftMargin @ writeRightMargin @ writeTopMargin @ writeBottomMargin @ writeSetup
     @ writeProtect @ writeScenProtect @ writeWindowProtect @ writeObjProtect @ writePassword
     = writeRecords rb" "list_all plain rb"
    by blast
  have "worksheetHead w = (writeBOF bofWorksheet
     @ writeCalcMode @ writeCalcCount @ writeRefMode @ writeIteration @ writeDelta
     @ writeSaveRecalc
     @ writeGuts @ writeDefaultRowHeight @ writeWSBool) @ writeDimensions w
     @ (writePrintHeaders @ writePrintGridlines @ writeGridSet @ writeHBreak @ writeVBreak
     @ writeHeader @ writeFooter @ writeHCenter @ writeVCenter
     @ writeLeftMargin @ writeRightMargin @ writeTopMargin @ writeBottomMargin @ writeSetup
     @ writeProtect @ writeScenProtect @ writeWindowProtect @ writeObjProtect @ writePassword)"
    by (simp add: worksheetHead_def)
  with ra rb show ?thesis by metis
qed

lemma plain_no_DIMENSIONS:
  "list_all plain recs \<Longrightarrow> filter (\<lambda>(t, p). t = recTypeDIMENSIONS) recs = []"
  by (induction recs) (auto simp add: plain_def)

lemma plain_no_SST:
  "list_all plain recs \<Longrightarrow> filter (\<lambda>(t, p). t = recTypeSST) recs = []"
  by (induction recs) (auto simp add: plain_def)

lemma plain_no_cells:
  "list_all plain recs \<Longrightarrow>
     filter (\<lambda>(t, p). t \<in> {recTypeROW, recTypeLABELSST, recTypeNUMBER, recTypeBOOLERR,
       recTypeLABEL}) recs = []"
  by (induction recs) (auto simp add: plain_def)

lemma plain_short: "list_all plain recs \<Longrightarrow> list_all (\<lambda>(t, p). length p < 65536) recs"
  by (induction recs) (auto simp add: plain_def)




section \<open>The CFB container\<close>

lemma length_gocopy [simp]: "length (gocopy dst src) = length dst"
  by (simp add: gocopy_def)

lemma setIndex_Some: "i < length xs \<Longrightarrow> setIndex xs i v = Some (xs[i := v])"
  by (simp add: setIndex_def)

lemma setIndex_None: "length xs \<le> i \<Longrightarrow> setIndex xs i v = None"
  by (simp add: setIndex_def)

lemma fatChain_Some:
  "ds \<le> length fat \<Longrightarrow>
     fatChain i ds fat = Some (map (\<lambda>j. if i \<le> j \<and> j < ds
         then (if j = ds - 1 then cfbEndOfChain else of_nat (j + 1)) else fat ! j)
       [0..<length fat])"
proof (induction i ds fat rule: fatChain.induct)
  case (1 i ds fat)
  show ?case
  proof (cases "i < ds")
    case False
    then have "map (\<lambda>j. if i \<le> j \<and> j < ds
         then (if j = ds - 1 then cfbEndOfChain else of_nat (j + 1)) else fat ! j)
       [0..<length fat] = map (\<lambda>j. fat ! j) [0..<length fat]"
      by auto
    with False show ?thesis
      by (subst fatChain.simps) (simp add: map_nth)
  next
    case True
    let ?v = "if i = ds - 1 then cfbEndOfChain else of_nat (i + 1) :: 32 word"
    from True "1.prems" have il: "i < length fat" by simp
    then have set: "setIndex fat i ?v = Some (fat[i := ?v])" by (rule setIndex_Some)
    have "fatChain (i + 1) ds (fat[i := ?v]) = Some (map (\<lambda>j. if i + 1 \<le> j \<and> j < ds
         then (if j = ds - 1 then cfbEndOfChain else of_nat (j + 1)) else fat[i := ?v] ! j)
       [0..<length (fat[i := ?v])])"
      using "1.IH" [OF True set] "1.prems" by simp
    moreover have "map (\<lambda>j. if i + 1 \<le> j \<and> j < ds
         then (if j = ds - 1 then cfbEndOfChain else of_nat (j + 1)) else fat[i := ?v] ! j)
       [0..<length (fat[i := ?v])]
      = map (\<lambda>j. if i \<le> j \<and> j < ds
         then (if j = ds - 1 then cfbEndOfChain else of_nat (j + 1)) else fat ! j)
       [0..<length fat]"
      using True il by (auto simp add: nth_list_update)
    ultimately show ?thesis
      using True set by (subst fatChain.simps) simp
  qed
qed

lemma fatChain_None:
  "length fat < ds \<Longrightarrow> i < ds \<Longrightarrow> fatChain i ds fat = None"
proof (induction i ds fat rule: fatChain.induct)
  case (1 i ds fat)
  let ?v = "if i = ds - 1 then cfbEndOfChain else of_nat (i + 1) :: 32 word"
  show ?case
  proof (cases "i < length fat")
    case False
    then have "setIndex fat i ?v = None" by (simp add: setIndex_None)
    with "1.prems" show ?thesis by (subst fatChain.simps) simp
  next
    case True
    then have set: "setIndex fat i ?v = Some (fat[i := ?v])" by (rule setIndex_Some)
    from True "1.prems" have "i + 1 < ds" by simp
    with "1.IH" [OF "1.prems"(2) set] "1.prems" have "fatChain (i + 1) ds (fat[i := ?v]) = None"
      by simp
    with "1.prems" set show ?thesis by (subst fatChain.simps) simp
  qed
qed


lemma length_NewCFBHeader_bytes:
  "length (CFBHeader_WriteTo (NewCFBHeader\<lparr>FATSectors := a, FirstDirSector := b,
      DIFAT := (DIFAT NewCFBHeader)[0 := c]\<rparr>)) = 512"
  by (simp add: CFBHeader_WriteTo_def NewCFBHeader_def length_concat_PutUint32)

lemma signature_NewCFBHeader_bytes:
  "take 8 (CFBHeader_WriteTo (NewCFBHeader\<lparr>FATSectors := a, FirstDirSector := b,
      DIFAT := (DIFAT NewCFBHeader)[0 := c]\<rparr>) @ rest)
   = [0xD0, 0xCF, 0x11, 0xE0, 0xA1, 0xB1, 0x1A, 0xE1]"
  by (simp add: CFBHeader_WriteTo_def NewCFBHeader_def)

lemma length_entry_bytes:
  "length (Name e) = 64 \<Longrightarrow> length (EntryCLSID e) = 16 \<Longrightarrow>
     length (CFBDirectoryEntry_WriteTo e) = 128"
  by (simp add: CFBDirectoryEntry_WriteTo_def)

lemma dataSectorsOf_bounds: "8 \<le> dataSectorsOf wb"
  by (simp add: dataSectorsOf_def)

lemma dataSectorsOf_le: "dataSectorsOf wb \<le> 126 \<longleftrightarrow> length wb \<le> 64512"
  by (auto simp add: dataSectorsOf_def max_def)

lemma dataSectors_code:
  "((if length wb < 4096 then 4096 else length wb) + cfbSectorSize - 1) div cfbSectorSize
     = dataSectorsOf wb"
  by (simp add: dataSectorsOf_def cfbSectorSize_def max_def add.commute)

lemma fat_final:
  assumes "8 \<le> ds" and "ds \<le> 126"
  shows "(map (\<lambda>j. if 0 \<le> j \<and> j < ds
            then (if j = ds - 1 then cfbEndOfChain else of_nat (j + 1)) else replicate 128 cfbFreeSector ! j)
          [0..<128])[ds := cfbFATSector, ds + 1 := cfbEndOfChain] = expectedFAT ds"
proof (rule nth_equalityI)
  show "length ((map (\<lambda>j. if 0 \<le> j \<and> j < ds
            then (if j = ds - 1 then cfbEndOfChain else of_nat (j + 1)) else replicate 128 cfbFreeSector ! j)
          [0..<128])[ds := cfbFATSector, ds + 1 := cfbEndOfChain]) = length (expectedFAT ds)"
    by (simp add: expectedFAT_def)
next
  fix i
  assume "i < length ((map (\<lambda>j. if 0 \<le> j \<and> j < ds
            then (if j = ds - 1 then cfbEndOfChain else of_nat (j + 1)) else replicate 128 cfbFreeSector ! j)
          [0..<128])[ds := cfbFATSector, ds + 1 := cfbEndOfChain])"
  then have i: "i < 128" by simp
  with assms show "(map (\<lambda>j. if 0 \<le> j \<and> j < ds
            then (if j = ds - 1 then cfbEndOfChain else of_nat (j + 1)) else replicate 128 cfbFreeSector ! j)
          [0..<128])[ds := cfbFATSector, ds + 1 := cfbEndOfChain] ! i = expectedFAT ds ! i"
    by (auto simp add: expectedFAT_def nth_list_update simp del: upt_Suc)
qed

lemma fatTable_small:
  assumes "8 \<le> ds" and "ds \<le> 126"
  shows "fatTable ds = Some (expectedFAT ds)"
proof -
  have chain: "fatChain 0 ds (replicate 128 cfbFreeSector) = Some (map (\<lambda>j. if 0 \<le> j \<and> j < ds
            then (if j = ds - 1 then cfbEndOfChain else of_nat (j + 1)) else replicate 128 cfbFreeSector ! j)
          [0..<128])"
    using assms fatChain_Some [of ds "replicate 128 cfbFreeSector" 0] by simp
  show ?thesis
    unfolding fatTable_def Let_def cfbSectorSize_def
    using assms fat_final [OF assms]
    by (simp add: chain setIndex_def del: upt_Suc upt_rec_numeral)
qed

lemma fatTable_big:
  assumes "126 < ds"
  shows "fatTable ds = None"
proof -
  consider "128 < ds" | "ds = 128" | "ds = 127" using assms by linarith
  then show ?thesis
  proof cases
    case 1
    then have "fatChain 0 ds (replicate 128 cfbFreeSector) = None"
      by (simp add: fatChain_None)
    then show ?thesis
      by (simp add: fatTable_def cfbSectorSize_def)
  next
    case 2
    have "fatChain 0 128 (replicate 128 cfbFreeSector) = Some (map (\<lambda>j. if 0 \<le> j \<and> j < 128
            then (if j = 128 - 1 then cfbEndOfChain else of_nat (j + 1)) else replicate 128 cfbFreeSector ! j)
          [0..<128])"
      using fatChain_Some [of 128 "replicate 128 cfbFreeSector" 0] by simp
    with 2 show ?thesis
      by (simp add: fatTable_def cfbSectorSize_def setIndex_def del: upt_Suc upt_rec_numeral)
  next
    case 3
    have "fatChain 0 127 (replicate 128 cfbFreeSector) = Some (map (\<lambda>j. if 0 \<le> j \<and> j < 127
            then (if j = 127 - 1 then cfbEndOfChain else of_nat (j + 1)) else replicate 128 cfbFreeSector ! j)
          [0..<128])"
      using fatChain_Some [of 127 "replicate 128 cfbFreeSector" 0] by simp
    with 3 show ?thesis
      by (simp add: fatTable_def cfbSectorSize_def setIndex_def del: upt_Suc upt_rec_numeral)
  qed
qed

lemma length_directorySector: "length (directorySector n) = 512"
  by (simp add: directorySector_def Let_def length_entry_bytes zeroEntry_def)

lemma WriteCFB_panics:
  assumes "64512 < length wb"
  shows "WriteCFB wb =
     (CFBHeader_WriteTo (NewCFBHeader\<lparr>FATSectors := 1,
          FirstDirSector := of_nat (dataSectorsOf wb + 1),
          DIFAT := (DIFAT NewCFBHeader)[0 := of_nat (dataSectorsOf wb)]\<rparr>)
        @ gocopy (replicate (dataSectorsOf wb * 512) 0) wb,
      PanicIndexOutOfRange)"
proof -
  from assms have "126 < dataSectorsOf wb" using dataSectorsOf_le [of wb] by simp
  then have "fatTable (dataSectorsOf wb) = None" by (rule fatTable_big)
  then show ?thesis
    unfolding WriteCFB_def Let_def dataSectors_code
    by (simp add: cfbSectorSize_def)
qed

lemma WriteCFB_returns:
  assumes "length wb \<le> 64512"
  shows "WriteCFB wb =
     (CFBHeader_WriteTo (NewCFBHeader\<lparr>FATSectors := 1,
          FirstDirSector := of_nat (dataSectorsOf wb + 1),
          DIFAT := (DIFAT NewCFBHeader)[0 := of_nat (dataSectorsOf wb)]\<rparr>)
        @ gocopy (replicate (dataSectorsOf wb * 512) 0) wb
        @ concat (map PutUint32 (expectedFAT (dataSectorsOf wb)))
        @ directorySector (max (length wb) 4096),
      ReturnedNil)"
proof -
  from assms have "dataSectorsOf wb \<le> 126" using dataSectorsOf_le [of wb] by simp
  with dataSectorsOf_bounds [of wb] have "fatTable (dataSectorsOf wb) = Some (expectedFAT (dataSectorsOf wb))"
    by (rule fatTable_small)
  then show ?thesis
    unfolding WriteCFB_def Let_def dataSectors_code
    by (simp add: cfbSectorSize_def max_def)
qed


lemma Uint32_drop_concat:
  "i < length xs \<Longrightarrow>
     Uint32 (drop (4 * i) (concat (map PutUint32 xs) @ rest)) = xs ! i"
proof (induction xs arbitrary: i)
  case Nil
  then show ?case by simp
next
  case (Cons x xs)
  show ?case
  proof (cases i)
    case 0
    then show ?thesis by simp
  next
    case (Suc k)
    with Cons show ?thesis by simp
  qed
qed

lemma expectedFAT_nth:
  "i < 128 \<Longrightarrow> expectedFAT ds ! i =
     (if i + 1 < ds then of_nat (i + 1)
      else if i + 1 = ds then cfbEndOfChain
      else if i = ds then cfbFATSector
      else if i = ds + 1 then cfbEndOfChain
      else cfbFreeSector)"
  unfolding expectedFAT_def by (simp del: upt_Suc upt_rec_numeral)

lemma length_expectedFAT [simp]: "length (expectedFAT ds) = 128"
  by (simp add: expectedFAT_def)

lemma drop_header_data:
  "length H = 512 \<Longrightarrow> length P = 512 * n \<Longrightarrow>
     drop (512 + 512 * n + k) (H @ P @ R) = drop k R"
  by simp

text \<open>
  Claim C4, as amended. For every workbook byte slice of at most 64512 bytes (at most 126
  data sectors), \<open>WriteCFB\<close> returns, and the sector that follows the header and the data
  sectors is the FAT sector: 128 entries of 4 bytes, where with
  \<open>data_sectors = ceil (max (len workbook) 4096 / 512)\<close> entry \<open>i\<close> is \<open>i + 1\<close> for
  \<open>i \<le> data_sectors - 2\<close>, entry \<open>data_sectors - 1\<close> is end-of-chain, entry \<open>data_sectors\<close>
  is the FAT-sector marker, entry \<open>data_sectors + 1\<close> is end-of-chain, and every other
  entry is free.
\<close>

theorem fat_sector:
  assumes "length wb \<le> 64512"
  shows "snd (WriteCFB wb) = ReturnedNil
   \<and> take 512 (drop (512 + 512 * dataSectorsOf wb) (fst (WriteCFB wb)))
       = concat (map PutUint32 (expectedFAT (dataSectorsOf wb)))
   \<and> length (expectedFAT (dataSectorsOf wb)) = 128
   \<and> (\<forall>i. i < 128 \<longrightarrow>
        Uint32 (drop (512 + 512 * dataSectorsOf wb + 4 * i) (fst (WriteCFB wb))) =
          (if i + 1 < dataSectorsOf wb then of_nat (i + 1)
           else if i + 1 = dataSectorsOf wb then cfbEndOfChain
           else if i = dataSectorsOf wb then cfbFATSector
           else if i = dataSectorsOf wb + 1 then cfbEndOfChain
           else cfbFreeSector))"
proof -
  let ?ds = "dataSectorsOf wb"
  let ?H = "CFBHeader_WriteTo (NewCFBHeader\<lparr>FATSectors := 1,
          FirstDirSector := of_nat (?ds + 1),
          DIFAT := (DIFAT NewCFBHeader)[0 := of_nat ?ds]\<rparr>)"
  let ?P = "gocopy (replicate (?ds * 512) 0) wb"
  let ?F = "concat (map PutUint32 (expectedFAT ?ds))"
  let ?D = "directorySector (max (length wb) 4096)"
  have w: "WriteCFB wb = (?H @ ?P @ ?F @ ?D, ReturnedNil)"
    using WriteCFB_returns [OF assms] .
  have lH: "length ?H = 512" by (rule length_NewCFBHeader_bytes)
  have lP: "length ?P = 512 * ?ds" by simp
  have lF: "length ?F = 512" by (simp add: length_concat_PutUint32)
  have d: "drop (512 + 512 * ?ds + k) (?H @ ?P @ ?F @ ?D) = drop k (?F @ ?D)" for k
    using lH lP by (rule drop_header_data)
  have "take 512 (drop (512 + 512 * ?ds + 0) (?H @ ?P @ ?F @ ?D)) = ?F"
    unfolding d using lF by simp
  then have sector: "take 512 (drop (512 + 512 * ?ds) (?H @ ?P @ ?F @ ?D)) = ?F"
    by (simp only: add_0_right)
  have entries: "length (expectedFAT ?ds) = 128"
    by simp
  have entry: "Uint32 (drop (512 + 512 * ?ds + 4 * i) (?H @ ?P @ ?F @ ?D)) =
          (if i + 1 < ?ds then of_nat (i + 1)
           else if i + 1 = ?ds then cfbEndOfChain
           else if i = ?ds then cfbFATSector
           else if i = ?ds + 1 then cfbEndOfChain
           else cfbFreeSector)" if "i < 128" for i
    unfolding d using that by (simp only: Uint32_drop_concat length_expectedFAT expectedFAT_nth)
  show ?thesis
    unfolding w fst_conv snd_conv using sector entries entry by blast
qed

theorem fat_sector_witness:
  "length ([] :: byte list) \<le> 64512
   \<and> dataSectorsOf [] = 8
   \<and> snd (WriteCFB []) = ReturnedNil
   \<and> Uint32 (drop (512 + 512 * 8 + 4 * 0) (fst (WriteCFB []))) = 1
   \<and> Uint32 (drop (512 + 512 * 8 + 4 * 6) (fst (WriteCFB []))) = 7
   \<and> Uint32 (drop (512 + 512 * 8 + 4 * 7) (fst (WriteCFB []))) = cfbEndOfChain
   \<and> Uint32 (drop (512 + 512 * 8 + 4 * 8) (fst (WriteCFB []))) = cfbFATSector
   \<and> Uint32 (drop (512 + 512 * 8 + 4 * 9) (fst (WriteCFB []))) = cfbEndOfChain
   \<and> Uint32 (drop (512 + 512 * 8 + 4 * 10) (fst (WriteCFB []))) = cfbFreeSector"
proof -
  have h: "length ([] :: byte list) \<le> 64512" by simp
  have ds: "dataSectorsOf [] = 8" by (simp add: dataSectorsOf_def)
  note t = fat_sector [OF h, unfolded ds]
  from t have e: "\<And>i. i < 128 \<Longrightarrow>
        Uint32 (drop (512 + 512 * 8 + 4 * i) (fst (WriteCFB []))) =
          (if i + 1 < 8 then of_nat (i + 1)
           else if i + 1 = 8 then cfbEndOfChain
           else if i = 8 then cfbFATSector
           else if i = 8 + 1 then cfbEndOfChain
           else cfbFreeSector)"
    by blast
  from t have r: "snd (WriteCFB []) = ReturnedNil" by blast
  from e [of 0] e [of 6] e [of 7] e [of 8] e [of 9] e [of 10] r ds show ?thesis
    by simp
qed

text \<open>
  Claim C4 as stated fails for a workbook of 64513 bytes: it needs 127 data sectors, the
  directory sector would be entry 128 of the 128-entry table, and the assignment
  \<^verbatim>\<open>fat[dirSector] = cfbEndOfChain\<close> panics. The sink holds the header and the 127 data
  sectors and no FAT sector.
\<close>

theorem fat_sector_counterexample:
  "WriteCFB (replicate 64513 0) =
     (CFBHeader_WriteTo (NewCFBHeader\<lparr>FATSectors := 1, FirstDirSector := 128,
          DIFAT := (DIFAT NewCFBHeader)[0 := 127]\<rparr>) @ replicate (127 * 512) 0,
      PanicIndexOutOfRange)"
proof -
  have ds: "dataSectorsOf (replicate 64513 (0 :: byte)) = 127"
    by (simp add: dataSectorsOf_def)
  have pad: "gocopy (replicate (127 * 512) 0) (replicate 64513 (0 :: byte)) = replicate (127 * 512) 0"
    by (simp add: gocopy_def replicate_add [symmetric])
  from WriteCFB_panics [of "replicate 64513 0"] show ?thesis
    by (simp add: ds pad [simplified])
qed

text \<open>
  For a workbook of at most 64512 bytes the output is as the sector plan says: it starts
  with the signature and is \<open>512 * (data_sectors + 3)\<close> bytes long.
\<close>

lemma WriteCFB_small_output:
  assumes "length wb \<le> 64512"
  shows "take 8 (fst (WriteCFB wb)) = [0xD0, 0xCF, 0x11, 0xE0, 0xA1, 0xB1, 0x1A, 0xE1]
    \<and> length (fst (WriteCFB wb)) = 512 * (dataSectorsOf wb + 3)
    \<and> snd (WriteCFB wb) = ReturnedNil"
  unfolding WriteCFB_returns [OF assms] fst_conv snd_conv
  by (simp add: signature_NewCFBHeader_bytes length_NewCFBHeader_bytes length_concat_PutUint32
      length_directorySector del: take_append)

text \<open>
  A table of 400 rows of 10 numbers gives a BIFF8 stream of more than 80000 bytes, and
  \<open>SaveAs\<close> on it ends in the panic of \<open>WriteCFB\<close>.
\<close>

lemma length_writeCells_numbers:
  "length (writeCells k row (replicate c (CellNumber v)) sst) = 18 * c"
  by (induction c arbitrary: k) (simp_all add: writeNumber_def)

lemma length_writeRows_numbers:
  "length (writeRows k (replicate m (replicate c (CellNumber v))) sst) = m * (20 + 18 * c)"
  by (induction m arbitrary: k) (simp_all add: writeRow_def length_writeCells_numbers)

lemma SaveAs_numbers_panics:
  "map_sum id snd (SaveAs \<lparr>data = replicate 400 (replicate 10 (CellNumber 0)),
      sheetName = ascii ''Sheet1''\<rparr>) = Inr PanicIndexOutOfRange"
proof -
  let ?w = "\<lparr>data = replicate 400 (replicate 10 (CellNumber 0)), sheetName = ascii ''Sheet1''\<rparr>"
  obtain sstBuf where s: "writeSST (sstOfRows newSST (data ?w)) = Inr sstBuf"
    using writeSST_eq by blast
  define stream where "stream = workbookGlobals @ sstBuf
      @ writeBoundSheet (of_nat (length ([] :: byte list) + length workbookGlobals + length sstBuf
           + (12 + length (stringToUTF16LE (sheetName ?w))) + 4)) (sheetName ?w)
      @ writeEOF @ worksheetHead ?w @ writeRowsAndCells ?w (sstOfRows newSST (data ?w))
      @ writeWindow2 @ writeEOF"
  have b: "writeBIFF8 ?w [] = Inr stream"
    using writeBIFF8_eq [OF s, of "[]"] by (simp add: stream_def)
  have "length (writeRowsAndCells ?w (sstOfRows newSST (data ?w))) = 400 * (20 + 18 * 10)"
    unfolding writeRowsAndCells_def Writer.simps by (rule length_writeRows_numbers)
  then have "64512 < length stream"
    by (simp add: stream_def)
  from WriteCFB_panics [OF this] show ?thesis
    by (simp add: SaveAs_def b)
qed


text \<open>
  Claim C5 does not hold of the code for a workbook longer than 64512 bytes. For 100000
  bytes the plan has 196 data sectors and an output of \<open>512 * (196 + 3)\<close> bytes; \<open>WriteCFB\<close>
  writes the header and the 196 data sectors, \<open>512 * (196 + 1)\<close> bytes beginning with the
  signature, and then panics in the loop over the data sectors at \<^verbatim>\<open>fat[128]\<close>. The same
  happens through \<open>SaveAs\<close> for a table of 400 rows of 10 numbers.
\<close>

theorem WriteCFB_large_panics:
  "dataSectorsOf (replicate 100000 0) = 196
   \<and> snd (WriteCFB (replicate 100000 0)) = PanicIndexOutOfRange
   \<and> length (fst (WriteCFB (replicate 100000 0))) = 512 * (196 + 1)
   \<and> take 8 (fst (WriteCFB (replicate 100000 0)))
       = [0xD0, 0xCF, 0x11, 0xE0, 0xA1, 0xB1, 0x1A, 0xE1]
   \<and> map_sum id snd (SaveAs \<lparr>data = replicate 400 (replicate 10 (CellNumber 0)),
          sheetName = ascii ''Sheet1''\<rparr>) = Inr PanicIndexOutOfRange"
proof -
  have ds: "dataSectorsOf (replicate 100000 (0 :: byte)) = 196"
    by (simp add: dataSectorsOf_def)
  have big: "64512 < length (replicate 100000 (0 :: byte))" by simp
  have "dataSectorsOf (replicate 100000 0) = 196
   \<and> snd (WriteCFB (replicate 100000 0)) = PanicIndexOutOfRange
   \<and> length (fst (WriteCFB (replicate 100000 0))) = 512 * (196 + 1)
   \<and> take 8 (fst (WriteCFB (replicate 100000 0)))
       = [0xD0, 0xCF, 0x11, 0xE0, 0xA1, 0xB1, 0x1A, 0xE1]"
    unfolding WriteCFB_panics [OF big] fst_conv snd_conv ds
    by (simp add: signature_NewCFBHeader_bytes length_NewCFBHeader_bytes del: take_append)
  with SaveAs_numbers_panics show ?thesis
    by blast
qed

end
